theory Spec2Isabelle
  imports Main "HOL-Library.Word" "HOL-Library.Sublist"
begin

unbundle bit_operations_syntax

section \<open>JavaScript values as the engine sees them\<close>

text \<open>
  The engine is \<^verbatim>\<open>src/cap/index.ts\<close>. A JavaScript string is a sequence of UTF-16 code
  units: \<^verbatim>\<open>length\<close>, \<^verbatim>\<open>charCodeAt\<close>, \<^verbatim>\<open>substring\<close>, \<^verbatim>\<open>split\<close> and \<^verbatim>\<open>startsWith\<close> all count in
  code units, so a string is a list of 16-bit words. Literals of the source are written
  with \<open>js\<close>.

  A number that arrives in a request (an entry of \<^verbatim>\<open>solutions\<close>) can be any number of
  JavaScript: an integer, a fraction, \<^verbatim>\<open>NaN\<close>, an infinity. The engine does three things
  with it: it tests \<^verbatim>\<open>typeof\<close>, it tests truthiness, and it converts it to a string
  (\<^verbatim>\<open>salt + solutions[idx]\<close>). So \<open>JNum\<close> carries the string that conversion gives, which
  determines the number (up to the sign of zero): 21 is \<open>JNum "21"\<close>, 1.5 is
  \<open>JNum "1.5"\<close>, \<open>10\<^sup>2\<^sup>1\<close> is \<open>JNum "1e+21"\<close>, and \<^verbatim>\<open>NaN\<close> is \<open>JNum "NaN"\<close>. The numbers the
  engine keeps itself (counts, sizes, timestamps) are integers of magnitude below
  \<open>2 ^ 53\<close>, where the arithmetic of numbers is exact; they are modelled as \<open>int\<close>.
  An array is the list of its elements, without holes, as a parsed request body is.
\<close>

type_synonym char16 = "16 word"
type_synonym jsstring = "char16 list"

definition js :: "string \<Rightarrow> jsstring" where
  "js lit = map of_char lit"

datatype jsval =
    JUndefined
  | JNull
  | JBool bool
  | JNum jsstring
  | JStr jsstring
  | JArr "jsval list"
  | JObj

text \<open>Truthiness, as \<^verbatim>\<open>!x\<close> tests it: among the numbers, zero and \<^verbatim>\<open>NaN\<close> are falsy.\<close>

fun truthy :: "jsval \<Rightarrow> bool" where
  "truthy JUndefined = False"
| "truthy JNull = False"
| "truthy (JBool b) = b"
| "truthy (JNum n) = (n \<noteq> js ''0'' \<and> n \<noteq> js ''NaN'')"
| "truthy (JStr str) = (str \<noteq> [])"
| "truthy (JArr _) = True"
| "truthy JObj = True"

fun isArray :: "jsval \<Rightarrow> bool" where
  "isArray (JArr _) = True"
| "isArray _ = False"

fun isNumber :: "jsval \<Rightarrow> bool" where
  "isNumber (JNum _) = True"
| "isNumber _ = False"

fun isString :: "jsval \<Rightarrow> bool" where
  "isString (JStr _) = True"
| "isString _ = False"

fun elements :: "jsval \<Rightarrow> jsval list" where
  "elements (JArr vs) = vs"
| "elements _ = []"

subsection \<open>Number to string\<close>

text \<open>
  \<^verbatim>\<open>n.toString(16)\<close> on a non-negative integer, and \<^verbatim>\<open>padStart(k, "0")\<close>.
  The digit characters are \<^verbatim>\<open>0\<close>..\<^verbatim>\<open>9\<close> (48..57) and \<^verbatim>\<open>a\<close>..\<^verbatim>\<open>f\<close> (97..102).
\<close>

definition hexDigit :: "nat \<Rightarrow> char16" where
  "hexDigit v = (if v < 10 then of_nat (48 + v) else of_nat (87 + v))"

fun toString16 :: "nat \<Rightarrow> jsstring" where
  "toString16 n = (if n < 16 then [hexDigit n] else toString16 (n div 16) @ [hexDigit (n mod 16)])"

declare toString16.simps [simp del]

definition padStart :: "nat \<Rightarrow> char16 \<Rightarrow> jsstring \<Rightarrow> jsstring" where
  "padStart k fill str = replicate (k - length str) fill @ str"

text \<open>
  The counter \<^verbatim>\<open>i\<close> of the puzzle list is an integer from 1 to the length of an array.
  A template literal renders such an integer in decimal (the conversion of numbers to
  strings leaves the decimal form only at \<open>10\<^sup>2\<^sup>1\<close>, beyond the length of any array).
\<close>

fun toString10 :: "nat \<Rightarrow> jsstring" where
  "toString10 n = (if n < 10 then [of_nat (48 + n)] else toString10 (n div 10) @ [of_nat (48 + n mod 10)])"

declare toString10.simps [simp del]

definition indexToString :: "int \<Rightarrow> jsstring" where
  "indexToString i = toString10 (nat i)"

fun joinWith :: "jsstring \<Rightarrow> jsstring list \<Rightarrow> jsstring" where
  "joinWith sep [] = []"
| "joinWith sep [x] = x"
| "joinWith sep (x # y # rest) = x @ sep @ joinWith sep (y # rest)"

text \<open>\<^verbatim>\<open>"" + v\<close>: the string a value contributes to a concatenation.\<close>

fun ToString :: "jsval \<Rightarrow> jsstring" where
  "ToString JUndefined = js ''undefined''"
| "ToString JNull = js ''null''"
| "ToString (JBool b) = (if b then js ''true'' else js ''false'')"
| "ToString (JNum n) = n"
| "ToString (JStr str) = str"
| "ToString (JArr vs) =
     joinWith (js '','')
       (map (\<lambda>v. if v = JUndefined \<or> v = JNull then [] else ToString v) vs)"
| "ToString JObj = js ''[object Object]''"

subsection \<open>32-bit integer operators\<close>

text \<open>
  The bitwise operators of JavaScript convert their operands with ToInt32 (or ToUint32
  for \<^verbatim>\<open>>>>\<close>) and return a 32-bit result; \<^verbatim>\<open>+\<close> is the addition of numbers and does
  not wrap. The sums below stay far under \<open>2 ^ 53\<close>, so they are exact.
\<close>

definition ToInt32 :: "int \<Rightarrow> int" where
  "ToInt32 x = signed_take_bit 31 x"

definition ToUint32 :: "int \<Rightarrow> int" where
  "ToUint32 x = take_bit 32 x"

definition js_xor :: "int \<Rightarrow> int \<Rightarrow> int" where
  "js_xor a b = ToInt32 a XOR ToInt32 b"

definition js_shl :: "int \<Rightarrow> nat \<Rightarrow> int" where
  "js_shl a k = ToInt32 (push_bit (k mod 32) (ToInt32 a))"

definition js_ushr :: "int \<Rightarrow> nat \<Rightarrow> int" where
  "js_ushr a k = drop_bit (k mod 32) (ToUint32 a)"

section \<open>The deterministic sequence generator\<close>

text \<open>
  \<^verbatim>\<open>function prng(seed, length)\<close>. \<open>fnv1a_loop\<close> is the \<^verbatim>\<open>for\<close> loop of the inner
  \<^verbatim>\<open>fnv1a\<close>, \<open>next_state\<close> the three assignments of \<^verbatim>\<open>next()\<close> to the captured
  \<^verbatim>\<open>state\<close> (the value returned is \<^verbatim>\<open>state >>> 0\<close>), \<open>prng_loop\<close> the \<^verbatim>\<open>while\<close> loop.
\<close>

fun fnv1a_loop :: "int \<Rightarrow> jsstring \<Rightarrow> int" where
  "fnv1a_loop hash [] = hash"
| "fnv1a_loop hash (ch # rest) =
     (let h1 = js_xor hash (uint ch);
          h2 = h1 + (js_shl h1 1 + js_shl h1 4 + js_shl h1 7 + js_shl h1 8 + js_shl h1 24)
      in fnv1a_loop h2 rest)"

definition fnv1a :: "jsstring \<Rightarrow> int" where
  "fnv1a str = ToUint32 (fnv1a_loop 2166136261 str)"

definition next_state :: "int \<Rightarrow> int" where
  "next_state state =
     (let s1 = js_xor state (js_shl state 13);
          s2 = js_xor s1 (js_ushr s1 17);
          s3 = js_xor s2 (js_shl s2 5)
      in s3)"

definition render :: "int \<Rightarrow> jsstring" where
  "render rnd = padStart 8 48 (toString16 (nat rnd))"

function prng_loop :: "int \<Rightarrow> jsstring \<Rightarrow> int \<Rightarrow> jsstring" where
  "prng_loop state result len =
     (if int (length result) < len
      then (let state' = next_state state
            in prng_loop state' (result @ render (ToUint32 state')) len)
      else result)"
  by pat_completeness auto

termination prng_loop
  by (relation "measure (\<lambda>(state, result, len). nat (len - int (length result)))")
     (auto simp add: render_def padStart_def)

declare prng_loop.simps [simp del]

definition substring0 :: "int \<Rightarrow> jsstring \<Rightarrow> jsstring" where
  "substring0 len str = take (nat len) str"

definition prng :: "jsstring \<Rightarrow> int \<Rightarrow> jsstring" where
  "prng seed len = substring0 len (prng_loop (fnv1a seed) [] len)"

subsection \<open>Random hex strings and the digest\<close>

text \<open>
  \<^verbatim>\<open>randomHex(bytesLength)\<close> fills an array of \<open>bytesLength\<close> bytes from the platform's
  random source and renders each byte as two hex characters. The bytes are whatever the
  source delivers: \<open>entropy i\<close> is the byte at position \<open>i\<close> of the filled array.

  \<^verbatim>\<open>sha256Hex\<close> wraps the platform's SHA-256, which is not part of the repository: every
  operation below takes the digest as the parameter \<open>sha256Hex\<close>, a function from strings
  to strings, and every result holds for any such function.
\<close>

definition randomHex :: "nat \<Rightarrow> (nat \<Rightarrow> 8 word) \<Rightarrow> jsstring" where
  "randomHex bytesLength entropy =
     concat (map (\<lambda>i. padStart 2 48 (toString16 (unat (entropy i)))) [0..<bytesLength])"

section \<open>The storage collaborator\<close>

text \<open>
  The engine reaches its storage only through the hooks of \<^verbatim>\<open>config.storage\<close>. A hook is
  asynchronous and may fail: it runs on the backend's state \<open>'s\<close> and either returns a
  value or throws. \<open>await\<close> sequences two steps as \<^verbatim>\<open>await\<close> does in an \<^verbatim>\<open>async\<close>
  function without \<^verbatim>\<open>try\<close>: a throw of the first step ends the operation with that throw.
  (\<^verbatim>\<open>listExpired\<close> serves \<^verbatim>\<open>cleanup\<close> only and is left out.)
\<close>

datatype fault = Fault string

datatype 'a outcome = Throws fault | Returns 'a

type_synonym ('s, 'a) io = "'s \<Rightarrow> 'a outcome \<times> 's"

definition await :: "('s, 'a) io \<Rightarrow> ('a \<Rightarrow> ('s, 'b) io) \<Rightarrow> ('s, 'b) io" where
  "await m k st = (case m st of (Throws f, st') \<Rightarrow> (Throws f, st') | (Returns a, st') \<Rightarrow> k a st')"

definition return_io :: "'a \<Rightarrow> ('s, 'a) io" where
  "return_io a st = (Returns a, st)"

record ChallengeParams =
  cp_c :: int
  cp_s :: int
  cp_d :: int

record ChallengeData =
  cd_challenge :: ChallengeParams
  cd_expires :: int

record 's ChallengeStorage =
  cs_store :: "jsstring \<Rightarrow> ChallengeData \<Rightarrow> ('s, unit) io"
  cs_read :: "jsstring \<Rightarrow> ('s, ChallengeData option) io"
  cs_delete :: "jsstring \<Rightarrow> ('s, unit) io"

record 's TokenStorage =
  ts_store :: "jsstring \<Rightarrow> int \<Rightarrow> ('s, unit) io"
  ts_get :: "jsstring \<Rightarrow> ('s, int option) io"
  ts_delete :: "jsstring \<Rightarrow> ('s, unit) io"

record 's StorageHooks =
  challenges :: "'s ChallengeStorage option"
  tokens :: "'s TokenStorage option"

record 's CapConfig =
  storage :: "'s StorageHooks"

subsection \<open>An in-memory backend\<close>

text \<open>
  \<^verbatim>\<open>ChallengeState\<close> is the state record of the source: a table of challenges by token
  and a table of expiry timestamps by token key. The hooks over it are the plain
  key-value operations of the \<^verbatim>\<open>ChallengeStorage\<close> and \<^verbatim>\<open>TokenStorage\<close> interfaces:
  \<^verbatim>\<open>store\<close> writes (replacing), \<^verbatim>\<open>read\<close>/\<^verbatim>\<open>get\<close> look up, \<^verbatim>\<open>delete\<close> removes.
\<close>

record ChallengeState =
  challengesList :: "jsstring \<rightharpoonup> ChallengeData"
  tokensList :: "jsstring \<rightharpoonup> int"

definition memChallenges :: "ChallengeState ChallengeStorage" where
  "memChallenges =
     \<lparr>cs_store = (\<lambda>token data st.
          (Returns (), st\<lparr>challengesList := (challengesList st)(token \<mapsto> data)\<rparr>)),
      cs_read = (\<lambda>token st. (Returns (challengesList st token), st)),
      cs_delete = (\<lambda>token st.
          (Returns (), st\<lparr>challengesList := (challengesList st)(token := None)\<rparr>))\<rparr>"

definition memTokens :: "ChallengeState TokenStorage" where
  "memTokens =
     \<lparr>ts_store = (\<lambda>tokenKey expires st.
          (Returns (), st\<lparr>tokensList := (tokensList st)(tokenKey \<mapsto> expires)\<rparr>)),
      ts_get = (\<lambda>tokenKey st. (Returns (tokensList st tokenKey), st)),
      ts_delete = (\<lambda>tokenKey st.
          (Returns (), st\<lparr>tokensList := (tokensList st)(tokenKey := None)\<rparr>))\<rparr>"

definition memConfig :: "ChallengeState CapConfig" where
  "memConfig = \<lparr>storage = \<lparr>challenges = Some memChallenges, tokens = Some memTokens\<rparr>\<rparr>"

subsection \<open>A backend that is down\<close>

text \<open>Every hook throws \<open>f\<close> and leaves the state alone.\<close>

definition downChallenges :: "fault \<Rightarrow> 's ChallengeStorage" where
  "downChallenges f =
     \<lparr>cs_store = (\<lambda>token data st. (Throws f, st)),
      cs_read = (\<lambda>token st. (Throws f, st)),
      cs_delete = (\<lambda>token st. (Throws f, st))\<rparr>"

definition downTokens :: "fault \<Rightarrow> 's TokenStorage" where
  "downTokens f =
     \<lparr>ts_store = (\<lambda>tokenKey expires st. (Throws f, st)),
      ts_get = (\<lambda>tokenKey st. (Throws f, st)),
      ts_delete = (\<lambda>tokenKey st. (Throws f, st))\<rparr>"

definition downConfig :: "fault \<Rightarrow> 's CapConfig" where
  "downConfig f =
     \<lparr>storage = \<lparr>challenges = Some (downChallenges f), tokens = Some (downTokens f)\<rparr>\<rparr>"

subsection \<open>Backends with a part missing or failing\<close>

text \<open>
  Both stores of \<^verbatim>\<open>StorageHooks\<close> are optional. \<open>noTokenHooks\<close> is the in-memory backend
  configured without a token store. \<open>failingDelete f\<close> is the in-memory backend whose two
  \<^verbatim>\<open>delete\<close> hooks throw \<open>f\<close>, and \<open>failingTokens f\<close> the one whose token store is down.
\<close>

definition noTokenHooks :: "ChallengeState CapConfig" where
  "noTokenHooks = \<lparr>storage = \<lparr>challenges = Some memChallenges, tokens = None\<rparr>\<rparr>"

definition failingDelete :: "fault \<Rightarrow> ChallengeState CapConfig" where
  "failingDelete f =
     \<lparr>storage =
        \<lparr>challenges = Some (memChallenges\<lparr>cs_delete := (\<lambda>token st. (Throws f, st))\<rparr>),
         tokens = Some (memTokens\<lparr>ts_delete := (\<lambda>tokenKey st. (Throws f, st))\<rparr>)\<rparr>\<rparr>"

definition failingTokens :: "fault \<Rightarrow> ChallengeState CapConfig" where
  "failingTokens f = \<lparr>storage = \<lparr>challenges = Some memChallenges, tokens = Some (downTokens f)\<rparr>\<rparr>"

section \<open>The protocol engine\<close>

text \<open>
  \<^verbatim>\<open>class Cap\<close>. Each operation takes the configuration, the readings of \<^verbatim>\<open>Date.now()\<close>
  it makes and the random bytes it draws as arguments, and runs on the backend's state.
  The private methods \<^verbatim>\<open>_getChallenge\<close>, \<^verbatim>\<open>_deleteChallenge\<close>, \<^verbatim>\<open>_getToken\<close> and
  \<^verbatim>\<open>_deleteToken\<close> are written without the underscore; each does nothing when its
  store has no hooks.
\<close>

definition getChallenge :: "'s CapConfig \<Rightarrow> jsstring \<Rightarrow> ('s, ChallengeData option) io" where
  "getChallenge cfg token =
     (case challenges (storage cfg) of
        Some hooks \<Rightarrow> cs_read hooks token
      | None \<Rightarrow> return_io None)"

definition deleteChallenge :: "'s CapConfig \<Rightarrow> jsstring \<Rightarrow> ('s, unit) io" where
  "deleteChallenge cfg token =
     (case challenges (storage cfg) of
        Some hooks \<Rightarrow> cs_delete hooks token
      | None \<Rightarrow> return_io ())"

subsection \<open>createChallenge\<close>

text \<open>
  The timestamps (\<^verbatim>\<open>Date.now()\<close>, milliseconds) and the offsets added to them are integers
  whose sums stay below \<open>2 ^ 53\<close>, where the addition of numbers is exact: \<open>+\<close> on \<open>int\<close>.
\<close>

record ChallengeConfig =
  challengeCount :: "int option"
  challengeSize :: "int option"
  challengeDifficulty :: "int option"
  expiresMs :: "int option"
  store :: "bool option"

record CreateResult =
  cr_challenge :: ChallengeParams
  cr_token :: "jsstring option"
  cr_expires :: int

definition orDefault :: "'a option \<Rightarrow> 'a \<Rightarrow> 'a" where
  "orDefault v dflt = (case v of Some x \<Rightarrow> x | None \<Rightarrow> dflt)"

definition createChallenge ::
  "'s CapConfig \<Rightarrow> (nat \<Rightarrow> 8 word) \<Rightarrow> int \<Rightarrow> ChallengeConfig option \<Rightarrow> ('s, CreateResult) io" where
  "createChallenge cfg entropy now conf =
     (let challenge =
            \<lparr>cp_c = orDefault (Option.bind conf challengeCount) 50,
             cp_s = orDefault (Option.bind conf challengeSize) 32,
             cp_d = orDefault (Option.bind conf challengeDifficulty) 4\<rparr>;
          token = randomHex 25 entropy;
          expires = now + orDefault (Option.bind conf expiresMs) 600000
      in if Option.bind conf store = Some False
         then return_io \<lparr>cr_challenge = challenge, cr_token = None, cr_expires = expires\<rparr>
         else
           (let challengeData = \<lparr>cd_challenge = challenge, cd_expires = expires\<rparr>
            in await
                 (case challenges (storage cfg) of
                    Some hooks \<Rightarrow> cs_store hooks token challengeData
                  | None \<Rightarrow> return_io ())
                 (\<lambda>_. return_io
                    \<lparr>cr_challenge = challenge, cr_token = Some token, cr_expires = expires\<rparr>)))"

subsection \<open>redeemChallenge\<close>

record RedeemResult =
  rr_success :: bool
  rr_message :: "string option"
  rr_token :: "jsstring option"
  rr_expires :: "int option"

definition rejected :: "string \<Rightarrow> RedeemResult" where
  "rejected msg = \<lparr>rr_success = False, rr_message = Some msg, rr_token = None, rr_expires = None\<rparr>"

text \<open>
  The puzzle list: \<^verbatim>\<open>Array.from({ length: c }, ...)\<close> calls its function \<open>c\<close> times (no
  time for \<open>c \<le> 0\<close>), and the counter \<^verbatim>\<open>i\<close> is \<open>k + 1\<close> at the call of position \<open>k\<close>.
\<close>

definition puzzle :: "jsstring \<Rightarrow> ChallengeParams \<Rightarrow> nat \<Rightarrow> jsstring \<times> jsstring" where
  "puzzle token params k =
     (let i = int k + 1
      in (prng (token @ indexToString i) (cp_s params),
          prng (token @ indexToString i @ js ''d'') (cp_d params)))"

definition puzzles :: "jsstring \<Rightarrow> ChallengeParams \<Rightarrow> (jsstring \<times> jsstring) list" where
  "puzzles token params = map (puzzle token params) [0..<nat (cp_c params)]"

text \<open>
  One entry of \<^verbatim>\<open>isValidArr\<close>: \<^verbatim>\<open>solutions[idx]\<close> is \<^verbatim>\<open>undefined\<close> past the end of the
  array, and \<^verbatim>\<open>startsWith\<close> is the prefix test.
\<close>

definition isValid ::
  "(jsstring \<Rightarrow> jsstring) \<Rightarrow> jsval list \<Rightarrow> (jsstring \<times> jsstring) \<Rightarrow> nat \<Rightarrow> bool" where
  "isValid sha256Hex solutions ch idx =
     (case ch of (salt, target) \<Rightarrow>
        idx < length solutions \<and> solutions ! idx \<noteq> JUndefined \<and>
        prefix target (sha256Hex (salt @ ToString (solutions ! idx))))"

definition isValidArr ::
  "(jsstring \<Rightarrow> jsstring) \<Rightarrow> jsval list \<Rightarrow> (jsstring \<times> jsstring) list \<Rightarrow> bool list" where
  "isValidArr sha256Hex solutions chs =
     map (\<lambda>idx. isValid sha256Hex solutions (chs ! idx) idx) [0..<length chs]"

definition invalidBody :: "jsstring \<Rightarrow> jsval \<Rightarrow> bool" where
  "invalidBody token solutions =
     (token = [] \<or> \<not> truthy solutions \<or> \<not> isArray solutions \<or>
      list_ex (\<lambda>s. \<not> isNumber s) (elements solutions))"

definition redeemChallenge ::
  "'s CapConfig \<Rightarrow> (jsstring \<Rightarrow> jsstring) \<Rightarrow> (nat \<Rightarrow> 8 word) \<Rightarrow> (nat \<Rightarrow> 8 word) \<Rightarrow>
   int \<Rightarrow> int \<Rightarrow> jsstring \<Rightarrow> jsval \<Rightarrow> ('s, RedeemResult) io" where
  "redeemChallenge cfg sha256Hex entropy1 entropy2 now1 now2 token solutions =
     (if invalidBody token solutions
      then return_io (rejected ''Invalid body'')
      else
        await (getChallenge cfg token) (\<lambda>challengeData.
        await (deleteChallenge cfg token) (\<lambda>_.
          case challengeData of
            None \<Rightarrow> return_io (rejected ''Challenge invalid or expired'')
          | Some cd \<Rightarrow>
              if cd_expires cd < now1
              then return_io (rejected ''Challenge invalid or expired'')
              else
                (let chs = puzzles token (cd_challenge cd);
                     valid = isValidArr sha256Hex (elements solutions) chs
                 in if \<not> list_all (\<lambda>b. b) valid
                    then return_io (rejected ''Invalid solution'')
                    else
                      (let vertoken = randomHex 15 entropy1;
                           expires = now2 + 20 * 60 * 1000;
                           hash = sha256Hex vertoken;
                           id' = randomHex 8 entropy2;
                           tokenKey = id' @ js '':'' @ hash
                       in await
                            (case tokens (storage cfg) of
                               Some hooks \<Rightarrow> ts_store hooks tokenKey expires
                             | None \<Rightarrow> return_io ())
                            (\<lambda>_. return_io
                               \<lparr>rr_success = True, rr_message = None,
                                rr_token = Some (id' @ js '':'' @ vertoken),
                                rr_expires = Some expires\<rparr>))))))"

subsection \<open>validateToken\<close>

record TokenConfig =
  keepToken :: "bool option"

record ValidateResult =
  vr_success :: bool

definition getToken :: "'s CapConfig \<Rightarrow> jsstring \<Rightarrow> ('s, int option) io" where
  "getToken cfg tokenKey =
     (case tokens (storage cfg) of
        Some hooks \<Rightarrow> ts_get hooks tokenKey
      | None \<Rightarrow> return_io None)"

definition deleteToken :: "'s CapConfig \<Rightarrow> jsstring \<Rightarrow> ('s, unit) io" where
  "deleteToken cfg tokenKey =
     (case tokens (storage cfg) of
        Some hooks \<Rightarrow> ts_delete hooks tokenKey
      | None \<Rightarrow> return_io ())"

text \<open>\<^verbatim>\<open>str.split(sep)\<close> for a separator of one character: the pieces between separators.\<close>

fun split_on :: "char16 \<Rightarrow> jsstring \<Rightarrow> jsstring list" where
  "split_on sep [] = [[]]"
| "split_on sep (ch # rest) =
     (if ch = sep then [] # split_on sep rest
      else (case split_on sep rest of
              piece # pieces \<Rightarrow> (ch # piece) # pieces
            | [] \<Rightarrow> [[ch]]))"

definition keeps :: "TokenConfig option \<Rightarrow> bool" where
  "keeps conf = (Option.bind conf keepToken = Some True)"

definition validateToken ::
  "'s CapConfig \<Rightarrow> (jsstring \<Rightarrow> jsstring) \<Rightarrow> int \<Rightarrow> jsval \<Rightarrow> TokenConfig option \<Rightarrow>
   ('s, ValidateResult) io" where
  "validateToken cfg sha256Hex now token conf =
     (if \<not> truthy token \<or> \<not> isString token
      then return_io \<lparr>vr_success = False\<rparr>
      else
        (case split_on 58 (ToString token) of
           [id', vertoken] \<Rightarrow>
             if id' = [] \<or> vertoken = []
             then return_io \<lparr>vr_success = False\<rparr>
             else
               (let hash = sha256Hex vertoken;
                    key = id' @ js '':'' @ hash
                in await (getToken cfg key) (\<lambda>tokenExpires.
                     case tokenExpires of
                       None \<Rightarrow> return_io \<lparr>vr_success = False\<rparr>
                     | Some e \<Rightarrow>
                         if e = 0 then return_io \<lparr>vr_success = False\<rparr>
                         else if e > now
                         then (if \<not> keeps conf
                               then await (deleteToken cfg key)
                                      (\<lambda>_. return_io \<lparr>vr_success = True\<rparr>)
                               else return_io \<lparr>vr_success = True\<rparr>)
                         else return_io \<lparr>vr_success = False\<rparr>))
         | _ \<Rightarrow> return_io \<lparr>vr_success = False\<rparr>))"

section \<open>The generator as the design describes it\<close>

text \<open>
  The reference the generator is compared with, on 32-bit words: FNV-1a (offset basis
  2166136261, prime 16777619, wrapping multiplication) over a sequence of values, the
  xorshift32 step with the shifts 13, 17 and 5, eight lowercase hex characters per
  32-bit output, as many outputs as the length needs, and truncation.
\<close>

definition fnv1a_ref :: "'a::len word list \<Rightarrow> 32 word" where
  "fnv1a_ref xs = fold (\<lambda>x h. (h XOR ucast x) * 16777619) xs 2166136261"

definition xorshift32 :: "32 word \<Rightarrow> 32 word" where
  "xorshift32 x =
     (let x1 = x XOR push_bit 13 x;
          x2 = x1 XOR drop_bit 17 x1;
          x3 = x2 XOR push_bit 5 x2
      in x3)"

definition nibble :: "32 word \<Rightarrow> nat \<Rightarrow> char16" where
  "nibble w pos = hexDigit (unat (drop_bit (4 * pos) w AND 15))"

definition hex8 :: "32 word \<Rightarrow> jsstring" where
  "hex8 w = [nibble w 7, nibble w 6, nibble w 5, nibble w 4,
             nibble w 3, nibble w 2, nibble w 1, nibble w 0]"

fun stream_ref :: "nat \<Rightarrow> 32 word \<Rightarrow> jsstring" where
  "stream_ref 0 x = []"
| "stream_ref (Suc k) x = (let x' = xorshift32 x in hex8 x' @ stream_ref k x')"

definition derive_from :: "32 word \<Rightarrow> int \<Rightarrow> jsstring" where
  "derive_from h len = take (nat len) (stream_ref ((nat len + 7) div 8) h)"

text \<open>
  The byte sequence of a string is its UTF-8 encoding, the one \<^verbatim>\<open>TextEncoder\<close> gives
  \<^verbatim>\<open>sha256Hex\<close> in the same file: the code units are decoded to code points (a surrogate
  without its partner reads as U+FFFD), and each code point is written in one to four bytes.
\<close>

definition isHigh :: "char16 \<Rightarrow> bool" where
  "isHigh u = (55296 \<le> unat u \<and> unat u < 56320)"

definition isLow :: "char16 \<Rightarrow> bool" where
  "isLow u = (56320 \<le> unat u \<and> unat u < 57344)"

definition scalar :: "char16 \<Rightarrow> nat" where
  "scalar u = (if isHigh u \<or> isLow u then 65533 else unat u)"

fun code_points :: "jsstring \<Rightarrow> nat list" where
  "code_points [] = []"
| "code_points [u] = [scalar u]"
| "code_points (u # v # rest) =
     (if isHigh u \<and> isLow v
      then (65536 + (unat u - 55296) * 1024 + (unat v - 56320)) # code_points rest
      else scalar u # code_points (v # rest))"

definition utf8_encode :: "nat \<Rightarrow> 8 word list" where
  "utf8_encode cp =
     (if cp < 128 then [of_nat cp]
      else if cp < 2048 then [of_nat (192 + cp div 64), of_nat (128 + cp mod 64)]
      else if cp < 65536
      then [of_nat (224 + cp div 4096), of_nat (128 + cp div 64 mod 64), of_nat (128 + cp mod 64)]
      else [of_nat (240 + cp div 262144), of_nat (128 + cp div 4096 mod 64),
            of_nat (128 + cp div 64 mod 64), of_nat (128 + cp mod 64)])"

definition utf8 :: "jsstring \<Rightarrow> 8 word list" where
  "utf8 str = concat (map utf8_encode (code_points str))"

text \<open>The generator over the seed's bytes, and over the seed's code units.\<close>

definition derive_bytes :: "jsstring \<Rightarrow> int \<Rightarrow> jsstring" where
  "derive_bytes seed len = derive_from (fnv1a_ref (utf8 seed)) len"

definition derive_units :: "jsstring \<Rightarrow> int \<Rightarrow> jsstring" where
  "derive_units seed len = derive_from (fnv1a_ref seed) len"

definition hexChars :: "char16 set" where
  "hexChars = set (js ''0123456789abcdef'')"

text \<open>Auxiliary: the rendering of \<open>n\<close> in exactly \<open>k\<close> hex digits, lowest digit last.\<close>

fun hexN :: "nat \<Rightarrow> nat \<Rightarrow> jsstring" where
  "hexN 0 n = []"
| "hexN (Suc k) n = hexN k (n div 16) @ [hexDigit (n mod 16)]"

section \<open>Redemption as the design states it\<close>

text \<open>
  Puzzle \<open>i\<close> (counted from 1) is solved by a solution list when the entry at position
  \<open>i - 1\<close> exists and the digest of the salt followed by that entry starts with the target.
\<close>

definition solved ::
  "(jsstring \<Rightarrow> jsstring) \<Rightarrow> jsstring \<Rightarrow> ChallengeParams \<Rightarrow> jsval list \<Rightarrow> int \<Rightarrow> bool" where
  "solved sha256Hex token params solutions i =
     (nat (i - 1) < length solutions \<and>
      prefix (prng (token @ indexToString i @ js ''d'') (cp_d params))
        (sha256Hex (prng (token @ indexToString i) (cp_s params)
           @ ToString (solutions ! nat (i - 1)))))"

text \<open>
  Hex encoding as the design states it: each byte gives two characters of
  \<^verbatim>\<open>0123456789abcdef\<close>, the digit of its high four bits, then the digit of its low four
  bits. \<open>hexEncode (map entropy [0..<n])\<close> encodes the first \<open>n\<close> bytes of a random source.
\<close>

definition hexPair :: "8 word \<Rightarrow> jsstring" where
  "hexPair b = [js ''0123456789abcdef'' ! (unat b div 16), js ''0123456789abcdef'' ! (unat b mod 16)]"

definition hexEncode :: "8 word list \<Rightarrow> jsstring" where
  "hexEncode bytes = concat (map hexPair bytes)"

text \<open>The result of a successful redemption.\<close>

definition issued :: "(nat \<Rightarrow> 8 word) \<Rightarrow> (nat \<Rightarrow> 8 word) \<Rightarrow> int \<Rightarrow> RedeemResult" where
  "issued e1 e2 now2 =
     \<lparr>rr_success = True, rr_message = None,
      rr_token = Some (randomHex 8 e2 @ js '':'' @ randomHex 15 e1),
      rr_expires = Some (now2 + 1200000)\<rparr>"

section \<open>A worked example\<close>

text \<open>
  \<open>zeroBytes\<close> is a random source that delivers zero bytes. The example is a challenge
  of two puzzles under the token that \<^verbatim>\<open>createChallenge\<close> builds from 25 such bytes.
  \<open>sha256Known\<close> is SHA-256 at the seven strings the examples hash (hex digests of the
  UTF-8 bytes); elsewhere it is the empty string, which no step of the examples reads.
\<close>

definition zeroBytes :: "nat \<Rightarrow> 8 word" where
  "zeroBytes i = 0"

definition token0 :: jsstring where
  "token0 = js ''00000000000000000000000000000000000000000000000000''"

definition params0 :: ChallengeParams where
  "params0 = \<lparr>cp_c = 2, cp_s = 4, cp_d = 1\<rparr>"

definition sha256Known :: "jsstring \<Rightarrow> jsstring" where
  "sha256Known m =
     (case map_of
        [(js ''1f8a21'', js ''2c7067e5e6edb379aa54d2d41ff2382c786722d5a47d2b071f299b0c679512f0''),
         (js ''1f8a0'', js ''c6c6004b69d87a649a203911a3b232a82cc9ce702bcc59d2e74de70a12652b0e''),
         (js ''40421'', js ''4a7abf32b95e753e02df10aef62acd3159398f6660eb952fd15a1841d43336a4''),
         (js ''40420'', js ''84bbe0462a76cbb3a9067bf06b9b7b1161bd7856e8fd59460b378e7545eb3b7c''),
         (js ''000000000000000000000000000000'',
          js ''22aec58889504ab835d6fc62b79cd342cf13a6202883dd013781005b49e59df2''),
         (js ''b:c'', js ''333edf7c3ca371622cc3029bd182261a8aa727ffe3dca1adac71efc41bf1545e''),
         (js ''d61f1e+21'', js ''fc5f0207fda595badcb75e44021cbd3b7d24c28602b27d49b1d5c90e6437c8d7'')] m of
        Some h \<Rightarrow> h
      | None \<Rightarrow> [])"

definition state0 :: ChallengeState where
  "state0 =
     \<lparr>challengesList = [token0 \<mapsto> \<lparr>cd_challenge = params0, cd_expires = 600000\<rparr>],
      tokensList = Map.empty\<rparr>"

text \<open>
  The state after the example's challenge is redeemed with zero bytes from the random
  source at time 2000, and the result of that redemption.
\<close>

definition state1 :: ChallengeState where
  "state1 =
     \<lparr>challengesList = Map.empty,
      tokensList = [js ''0000000000000000:22aec58889504ab835d6fc62b79cd342cf13a6202883dd013781005b49e59df2''
                     \<mapsto> 1202000]\<rparr>"

definition issued0 :: RedeemResult where
  "issued0 =
     \<lparr>rr_success = True, rr_message = None,
      rr_token = Some (js ''0000000000000000:000000000000000000000000000000''),
      rr_expires = Some 1202000\<rparr>"

text \<open>
  A challenge of one puzzle under the token \<^verbatim>\<open>t38\<close>. Its salt is \<^verbatim>\<open>d61f\<close> and its target
  \<^verbatim>\<open>f\<close>; the number \<open>10\<^sup>2\<^sup>1\<close>, whose string is \<^verbatim>\<open>1e+21\<close>, solves it.
\<close>

definition tokenE :: jsstring where
  "tokenE = js ''t38''"

definition paramsE :: ChallengeParams where
  "paramsE = \<lparr>cp_c = 1, cp_s = 4, cp_d = 1\<rparr>"

definition stateE :: ChallengeState where
  "stateE =
     \<lparr>challengesList = [tokenE \<mapsto> \<lparr>cd_challenge = paramsE, cd_expires = 600000\<rparr>],
      tokensList = Map.empty\<rparr>"

text \<open>A request for a challenge of no puzzles, and the empty store.\<close>

definition conf0 :: ChallengeConfig where
  "conf0 = \<lparr>challengeCount = Some 0, challengeSize = None, challengeDifficulty = None,
             expiresMs = None, store = None\<rparr>"

definition emptyState :: ChallengeState where
  "emptyState = \<lparr>challengesList = Map.empty, tokensList = Map.empty\<rparr>"

text \<open>The store after that request is served at time 0 with zero bytes from the random source.\<close>

definition stateZ :: ChallengeState where
  "stateZ =
     \<lparr>challengesList = [token0 \<mapsto> \<lparr>cd_challenge = \<lparr>cp_c = 0, cp_s = 32, cp_d = 4\<rparr>,
                                        cd_expires = 600000\<rparr>],
      tokensList = Map.empty\<rparr>"

text \<open>
  The verification token that redemption issued, the key it is stored under, a store
  that holds a record under the key the first-colon reading of \<^verbatim>\<open>a:b:c\<close> would look up,
  and the option that keeps a token.
\<close>

definition verToken0 :: jsstring where
  "verToken0 = js ''0000000000000000:000000000000000000000000000000''"

definition tokenKey0 :: jsstring where
  "tokenKey0 = js ''0000000000000000:22aec58889504ab835d6fc62b79cd342cf13a6202883dd013781005b49e59df2''"

definition stateABC :: ChallengeState where
  "stateABC =
     \<lparr>challengesList = Map.empty,
      tokensList = [js ''a:333edf7c3ca371622cc3029bd182261a8aa727ffe3dca1adac71efc41bf1545e''
                     \<mapsto> 9999999]\<rparr>"

definition keeping :: "TokenConfig option" where
  "keeping = Some \<lparr>keepToken = Some True\<rparr>"

section \<open>The generator refines its reference\<close>

subsection \<open>The 32-bit operators on words\<close>

lemma W_ToInt32: "(word_of_int (ToInt32 x) :: 32 word) = word_of_int x"
  unfolding ToInt32_def by (simp add: word_of_int_eq_iff take_bit_signed_take_bit)

lemma W_ToUint32: "(word_of_int (ToUint32 x) :: 32 word) = word_of_int x"
  unfolding ToUint32_def by (simp add: word_of_int_eq_iff)

lemma ToUint32_uint: "ToUint32 x = uint (word_of_int x :: 32 word)"
  unfolding ToUint32_def by (simp add: uint_word_of_int_eq)

lemma W_js_xor: "(word_of_int (js_xor a b) :: 32 word) = word_of_int a XOR word_of_int b"
  by (simp add: js_xor_def of_int_xor_eq W_ToInt32)

lemma W_js_shl: "k < 32 \<Longrightarrow> (word_of_int (js_shl a k) :: 32 word) = push_bit k (word_of_int a)"
  by (simp add: js_shl_def of_int_push_bit W_ToInt32)

lemma W_drop_take: "(word_of_int (drop_bit k (take_bit 32 a)) :: 32 word) = drop_bit k (word_of_int a)"
  by (rule bit_word_eqI) (auto simp add: bit_simps)

lemma W_js_ushr: "k < 32 \<Longrightarrow> (word_of_int (js_ushr a k) :: 32 word) = drop_bit k (word_of_int a)"
  by (simp add: js_ushr_def ToUint32_def W_drop_take)

lemma fnv_step: "(x::32 word) + (push_bit 1 x + push_bit 4 x + push_bit 7 x + push_bit 8 x + push_bit 24 x) = x * 16777619"
  by (simp add: push_bit_eq_mult algebra_simps)

lemma W_uint_ucast: "(word_of_int (uint (ch :: 'a::len word)) :: 32 word) = ucast ch"
  by simp

lemma W_fnv_round:
  "(word_of_int (h1 + (js_shl h1 1 + js_shl h1 4 + js_shl h1 7 + js_shl h1 8 + js_shl h1 24)) :: 32 word)
     = word_of_int h1 * 16777619"
proof -
  have "(word_of_int (h1 + (js_shl h1 1 + js_shl h1 4 + js_shl h1 7 + js_shl h1 8 + js_shl h1 24)) :: 32 word)
      = word_of_int h1 + (word_of_int (js_shl h1 1) + word_of_int (js_shl h1 4) + word_of_int (js_shl h1 7)
          + word_of_int (js_shl h1 8) + word_of_int (js_shl h1 24))"
    by (simp only: of_int_add)
  also have "\<dots> = word_of_int h1 + (push_bit 1 (word_of_int h1) + push_bit 4 (word_of_int h1)
          + push_bit 7 (word_of_int h1) + push_bit 8 (word_of_int h1) + push_bit 24 (word_of_int h1))"
    by (simp only: W_js_shl [of 1] W_js_shl [of 4] W_js_shl [of 7] W_js_shl [of 8] W_js_shl [of 24])
  also have "\<dots> = word_of_int h1 * 16777619"
    by (rule fnv_step)
  finally show ?thesis .
qed

lemma W_fnv1a_loop:
  "(word_of_int (fnv1a_loop h str) :: 32 word) =
     fold (\<lambda>x h. (h XOR ucast x) * 16777619) str (word_of_int h)"
proof (induction str arbitrary: h)
  case Nil
  show ?case by simp
next
  case (Cons ch rest)
  show ?case
    by (simp only: fnv1a_loop.simps Let_def Cons.IH W_fnv_round W_js_xor W_uint_ucast fold_simps)
qed

lemma fnv1a_refines: "fnv1a str = uint (fnv1a_ref str)"
  by (simp add: fnv1a_def ToUint32_uint W_fnv1a_loop fnv1a_ref_def)

lemma W_next_state: "(word_of_int (next_state st) :: 32 word) = xorshift32 (word_of_int st)"
  by (simp add: next_state_def xorshift32_def Let_def W_js_xor W_js_shl W_js_ushr)


lemma hexN_zero: "hexN k 0 = replicate k 48"
proof (induction k)
  case 0 show ?case by simp
next
  case (Suc k)
  have "replicate k (48::char16) @ [48] = replicate (Suc k) 48"
    by (simp add: replicate_append_same)
  then show ?case by (simp add: Suc hexDigit_def)
qed

lemma length_hexN: "length (hexN k n) = k"
  by (induction k arbitrary: n) simp_all

lemma pad_toString16: "n < 16 ^ k \<Longrightarrow> 0 < k \<Longrightarrow> padStart k 48 (toString16 n) = hexN k n"
proof (induction k arbitrary: n)
  case 0
  then show ?case by simp
next
  case (Suc k)
  show ?case
  proof (cases "n < 16")
    case True
    then have "n div 16 = 0" "n mod 16 = n" by simp_all
    then show ?thesis
      by (simp add: toString16.simps [of n] True padStart_def hexN_zero)
  next
    case False
    then have k: "0 < k" using Suc.prems by (cases k) auto
    have small: "n div 16 < 16 ^ k" using Suc.prems by (simp add: less_mult_imp_div_less mult.commute)
    have IH: "padStart k 48 (toString16 (n div 16)) = hexN k (n div 16)"
      by (rule Suc.IH [OF small k])
    have "padStart (Suc k) 48 (toString16 n)
        = padStart k 48 (toString16 (n div 16)) @ [hexDigit (n mod 16)]"
      by (simp add: toString16.simps [of n] False padStart_def)
    then show ?thesis by (simp add: IH)
  qed
qed

lemma unat_nibble: "unat (drop_bit m (w :: 32 word) AND 15) = unat w div 2 ^ m mod 16"
proof -
  have "drop_bit m w AND 15 = take_bit 4 (drop_bit m w)"
    by (simp add: take_bit_eq_mask mask_eq_exp_minus_1)
  moreover have "unat (take_bit 4 (drop_bit m w)) = take_bit 4 (drop_bit m (unat w))"
    by (simp only: unsigned_take_bit_eq unat_drop_bit_eq)
  moreover have "take_bit 4 (drop_bit m (unat w)) = unat w div 2 ^ m mod 16"
    by (simp add: take_bit_eq_mod drop_bit_eq_div)
  ultimately show ?thesis by simp
qed

lemma hexN_8:
  "hexN 8 n = [hexDigit (n div 2 ^ 28 mod 16), hexDigit (n div 2 ^ 24 mod 16),
               hexDigit (n div 2 ^ 20 mod 16), hexDigit (n div 2 ^ 16 mod 16),
               hexDigit (n div 2 ^ 12 mod 16), hexDigit (n div 2 ^ 8 mod 16),
               hexDigit (n div 2 ^ 4 mod 16), hexDigit (n div 2 ^ 0 mod 16)]"
proof -
  have eight: "(8::nat) = Suc (Suc (Suc (Suc (Suc (Suc (Suc (Suc 0)))))))"
    by simp
  have "hexN (Suc (Suc (Suc (Suc (Suc (Suc (Suc (Suc 0)))))))) n =
      [hexDigit (n div 2 ^ 28 mod 16), hexDigit (n div 2 ^ 24 mod 16),
       hexDigit (n div 2 ^ 20 mod 16), hexDigit (n div 2 ^ 16 mod 16),
       hexDigit (n div 2 ^ 12 mod 16), hexDigit (n div 2 ^ 8 mod 16),
       hexDigit (n div 2 ^ 4 mod 16), hexDigit (n div 2 ^ 0 mod 16)]"
    by (simp add: div_mult2_eq [symmetric])
  then show ?thesis
    by (simp only: eight)
qed

lemma hexN_hex8: "hexN 8 (unat w) = hex8 w"
  by (simp only: hexN_8 hex8_def nibble_def unat_nibble) simp

lemma render_hex8: "render (ToUint32 st) = hex8 (word_of_int st)"
proof -
  have "nat (ToUint32 st) = unat (word_of_int st :: 32 word)"
    by (simp add: ToUint32_uint)
  moreover have "unat (word_of_int st :: 32 word) < 16 ^ 8"
    using unsigned_less [of "word_of_int st :: 32 word", where ?'a = nat] by simp
  ultimately show ?thesis
    by (simp add: render_def pad_toString16 hexN_hex8)
qed

subsection \<open>The output loop\<close>

lemma length_hex8: "length (hex8 w) = 8"
  by (simp add: hex8_def)

lemma length_stream_ref: "length (stream_ref k x) = 8 * k"
  by (induction k arbitrary: x) (simp_all add: Let_def length_hex8)

lemma blocks_step: "0 < (n::nat) \<Longrightarrow> (n + 7) div 8 = Suc ((n - 8 + 7) div 8)"
proof (cases "n < 8")
  case True
  assume "0 < n"
  with True have "(n + 7) div 8 = 1" by simp
  moreover from True have "(n - 8 + 7) div 8 = 0" by simp
  ultimately show ?thesis by simp
next
  case False
  then obtain m where m: "n = m + 8" by (metis add.commute le_Suc_ex not_less)
  then show ?thesis by simp
qed

lemma prng_loop_stream:
  "prng_loop state result len =
     result @ stream_ref ((nat (len - int (length result)) + 7) div 8) (word_of_int state)"
proof (induction state result len rule: prng_loop.induct)
  case (1 state result len)
  show ?case
  proof (cases "int (length result) < len")
    case False
    then have "(nat (len - int (length result)) + 7) div 8 = 0" by simp
    then show ?thesis
      using False by (simp add: prng_loop.simps [of state result len])
  next
    case True
    define state' where "state' = next_state state"
    define k' where "k' = (nat (len - int (length (result @ render (ToUint32 state')))) + 7) div 8"
    have IH: "prng_loop state' (result @ render (ToUint32 state')) len =
        (result @ render (ToUint32 state')) @ stream_ref k' (word_of_int state')"
      unfolding k'_def state'_def by (rule "1.IH" [OF True refl])
    have "nat (len - (int (length result) + 8)) = nat (len - int (length result)) - 8"
      by arith
    moreover have "0 < nat (len - int (length result))"
      using True by simp
    ultimately have k: "(nat (len - int (length result)) + 7) div 8 = Suc k'"
      by (simp add: k'_def render_hex8 length_hex8 blocks_step)
    have "prng_loop state result len = prng_loop state' (result @ render (ToUint32 state')) len"
      using True by (simp add: prng_loop.simps [of state result len] state'_def Let_def)
    also have "\<dots> = (result @ render (ToUint32 state')) @ stream_ref k' (word_of_int state')"
      by (rule IH)
    also have "\<dots> = result @ hex8 (xorshift32 (word_of_int state))
                        @ stream_ref k' (xorshift32 (word_of_int state))"
      by (simp add: render_hex8 state'_def W_next_state)
    finally show ?thesis
      by (simp add: k Let_def)
  qed
qed

lemma prng_refines: "prng seed len = derive_units seed len"
proof -
  have "(word_of_int (fnv1a seed) :: 32 word) = fnv1a_ref seed"
    by (simp add: fnv1a_refines)
  then show ?thesis
    by (simp add: prng_def substring0_def prng_loop_stream derive_units_def derive_from_def)
qed


lemma length_derive_from: "length (derive_from h len) = nat len"
  by (simp add: derive_from_def length_stream_ref)

lemma enum16: "(v::nat) < 16 \<Longrightarrow> v \<in> set [0, 1, 2, 3, 4, 5, 6, 7, 8, 9, 10, 11, 12, 13, 14, 15]"
proof -
  assume "v < 16"
  then have "v \<in> set [0..<16]" by simp
  moreover have "[0..<16] = [0, 1, 2, 3, 4, 5, 6, 7, 8, 9, 10, 11, 12, 13, 14, 15::nat]"
    by (simp add: upt_rec)
  ultimately show ?thesis by simp
qed
lemma hexDigit_hexChars: "v < 16 \<Longrightarrow> hexDigit v \<in> hexChars"
proof -
  assume "v < 16"
  then have "v \<in> set [0, 1, 2, 3, 4, 5, 6, 7, 8, 9, 10, 11, 12, 13, 14, 15]"
    by (rule enum16)
  moreover have "\<forall>v \<in> set [0, 1, 2, 3, 4, 5, 6, 7, 8, 9, 10, 11, 12, 13, 14, 15]. hexDigit v \<in> hexChars"
    by (simp add: hexDigit_def hexChars_def js_def)
  ultimately show ?thesis by blast
qed

lemma nibble_hexChars: "nibble w pos \<in> hexChars"
  by (simp add: nibble_def unat_nibble hexDigit_hexChars)

lemma hex8_hexChars: "set (hex8 w) \<subseteq> hexChars"
  by (simp add: hex8_def nibble_hexChars)

lemma stream_ref_hexChars: "set (stream_ref k x) \<subseteq> hexChars"
  by (induction k arbitrary: x) (simp_all add: Let_def hex8_hexChars)

lemma derive_from_hexChars: "set (derive_from h len) \<subseteq> hexChars"
  unfolding derive_from_def
  using stream_ref_hexChars set_take_subset by (rule order_trans [rotated])

subsection \<open>Seeds of ASCII characters\<close>

lemma ucast_small:
  assumes "unat (u :: char16) < 128"
  shows "(ucast (ucast u :: 8 word) :: 32 word) = ucast u"
proof -
  have "(ucast u :: 8 word) = of_nat (unat u)"
    by simp
  then have "unat (ucast u :: 8 word) = unat u mod 2 ^ 8"
    by (simp only: unat_of_nat) simp
  then have eq: "unat (ucast u :: 8 word) = unat u"
    using assms by simp
  have "(ucast (ucast u :: 8 word) :: 32 word) = of_nat (unat (ucast u :: 8 word))"
    by simp
  also have "\<dots> = of_nat (unat u)"
    by (simp only: eq)
  also have "\<dots> = ucast u"
    by simp
  finally show ?thesis .
qed

lemma code_points_ascii: "\<forall>u\<in>set str. unat u < 128 \<Longrightarrow> code_points str = map unat str"
  by (induction str rule: code_points.induct) (simp_all add: scalar_def isHigh_def isLow_def)

lemma utf8_ascii: "\<forall>u\<in>set str. unat u < 128 \<Longrightarrow> utf8 str = map ucast str"
proof -
  assume a: "\<forall>u\<in>set str. unat u < 128"
  have "concat (map utf8_encode (map unat str)) = map ucast str"
    using a by (induction str) (simp_all add: utf8_encode_def)
  then show ?thesis
    by (simp add: utf8_def code_points_ascii [OF a])
qed

lemma fold_ascii:
  "\<forall>u\<in>set str. unat u < 128 \<Longrightarrow>
     fold (\<lambda>x h. (h XOR ucast x) * 16777619) (map ucast str :: 8 word list) (h0 :: 32 word)
       = fold (\<lambda>x h. (h XOR ucast x) * 16777619) (str :: jsstring) h0"
proof (induction str arbitrary: h0)
  case Nil
  show ?case by simp
next
  case (Cons a str)
  from Cons.prems have a: "unat a < 128" and rest: "\<forall>u\<in>set str. unat u < 128"
    by simp_all
  show ?case
    by (simp only: list.map fold_simps ucast_small [OF a] Cons.IH [OF rest])
qed

lemma fnv1a_ref_ascii: "\<forall>u\<in>set seed. unat u < 128 \<Longrightarrow> fnv1a_ref (utf8 seed) = fnv1a_ref seed"
  by (simp add: fnv1a_ref_def utf8_ascii fold_ascii)


section \<open>Properties of the generator\<close>

text \<open>The generator at the seed that is the one character U+20AC, whose UTF-8 bytes are E2 82 AC.\<close>

lemma derive_units_euro: "derive_units [8364] 8 = js ''fa583810''"
  by (simp add: derive_units_def derive_from_def fnv1a_ref_def xorshift32_def hex8_def nibble_def
      hexDigit_def js_def Let_def)

lemma derive_bytes_euro: "derive_bytes [8364] 8 = js ''e4bb741e''"
  by (simp add: derive_bytes_def utf8_def utf8_encode_def scalar_def isHigh_def isLow_def
      derive_from_def fnv1a_ref_def xorshift32_def hex8_def nibble_def
      hexDigit_def js_def Let_def)

text \<open>
  Claim C3, as amended. For every seed and every length, \<open>prng seed len\<close> is the reference
  generator run on the FNV-1a hash of the seed's UTF-16 code units, each code unit
  XORed whole into the 32-bit state (offset basis 2166136261, prime 16777619, 32-bit
  wrap-around), followed by the xorshift32 stream with the shifts 13, 17 and 5, eight
  lowercase hex characters per output, truncated. When every character of the seed is
  ASCII the code units are the seed's bytes, and the result is the generator over the
  byte sequence. The result has exactly \<open>len\<close> characters (none for a negative \<open>len\<close>),
  all in \<open>[0-9a-f]\<close>. Being a function of \<open>seed\<close> and \<open>len\<close>, equal inputs give equal outputs.
\<close>

theorem prng_reference:
  "prng seed len = derive_units seed len
   \<and> ((\<forall>u\<in>set seed. unat u < 128) \<longrightarrow> prng seed len = derive_bytes seed len)
   \<and> length (prng seed len) = nat len
   \<and> set (prng seed len) \<subseteq> hexChars"
  by (simp add: prng_refines derive_units_def derive_bytes_def fnv1a_ref_ascii
      length_derive_from derive_from_hexChars)

theorem prng_reference_witness:
  "list_all (\<lambda>u. unat u < 128) (js ''ab1'')
   \<and> prng (js ''ab1'') 5 = derive_bytes (js ''ab1'') 5
   \<and> prng (js ''ab1'') 5 = derive_units (js ''ab1'') 5
   \<and> length (prng (js ''ab1'') 5) = 5"
proof -
  have ascii: "\<forall>u\<in>set (js ''ab1''). unat u < 128"
    by (simp add: js_def)
  have "nat 5 = (5::nat)"
    by simp
  with ascii prng_reference [of "js ''ab1''" 5] show ?thesis
    unfolding list_all_iff by metis
qed

text \<open>
  Claim C3 as stated fails for a seed with a character beyond ASCII: the code hashes
  the code unit 0x20AC in one round, the byte sequence has three bytes.
\<close>

theorem prng_bytes_counterexample:
  "prng [8364] 8 = js ''fa583810'' \<and> derive_bytes [8364] 8 = js ''e4bb741e''
   \<and> prng [8364] 8 \<noteq> derive_bytes [8364] 8"
  by (simp add: prng_refines derive_units_euro derive_bytes_euro js_def)

section \<open>The engine on the in-memory backend\<close>

lemma getChallenge_mem: "getChallenge memConfig token st = (Returns (challengesList st token), st)"
  by (simp add: getChallenge_def memConfig_def memChallenges_def)

lemma deleteChallenge_mem:
  "deleteChallenge memConfig token st =
     (Returns (), st\<lparr>challengesList := (challengesList st)(token := None)\<rparr>)"
  by (simp add: deleteChallenge_def memConfig_def memChallenges_def)

lemma getToken_mem: "getToken memConfig key st = (Returns (tokensList st key), st)"
  by (simp add: getToken_def memConfig_def memTokens_def)

lemma deleteToken_mem:
  "deleteToken memConfig key st = (Returns (), st\<lparr>tokensList := (tokensList st)(key := None)\<rparr>)"
  by (simp add: deleteToken_def memConfig_def memTokens_def)

lemma storeToken_mem:
  "(case tokens (storage memConfig) of Some hooks \<Rightarrow> ts_store hooks key e | None \<Rightarrow> return_io ()) st =
     (Returns (), st\<lparr>tokensList := (tokensList st)(key \<mapsto> e)\<rparr>)"
  by (simp add: memConfig_def memTokens_def)

lemma await_Returns: "m st = (Returns a, st') \<Longrightarrow> await m k st = k a st'"
  by (simp add: await_def)

lemma await_Throws: "m st = (Throws f, st') \<Longrightarrow> await m k st = (Throws f, st')"
  by (simp add: await_def)

lemma redeem_mem:
  assumes "\<not> invalidBody token solutions"
  shows "redeemChallenge memConfig H e1 e2 now1 now2 token solutions st =
    (let st1 = st\<lparr>challengesList := (challengesList st)(token := None)\<rparr> in
     case challengesList st token of
       None \<Rightarrow> (Returns (rejected ''Challenge invalid or expired''), st1)
     | Some cd \<Rightarrow>
         if cd_expires cd < now1 then (Returns (rejected ''Challenge invalid or expired''), st1)
         else if \<not> list_all (\<lambda>b. b) (isValidArr H (elements solutions) (puzzles token (cd_challenge cd)))
         then (Returns (rejected ''Invalid solution''), st1)
         else (Returns (issued e1 e2 now2),
               st1\<lparr>tokensList := (tokensList st1)
                  (randomHex 8 e2 @ js '':'' @ H (randomHex 15 e1) \<mapsto> now2 + 1200000)\<rparr>))"
  using assms
  by (simp add: redeemChallenge_def await_Returns [OF getChallenge_mem] await_Returns [OF deleteChallenge_mem]
      await_Returns [OF storeToken_mem] return_io_def issued_def Let_def split: option.splits)

subsection \<open>The example's puzzles\<close>

lemma toString10_digit: "n < 10 \<Longrightarrow> toString10 n = [of_nat (48 + n)]"
  by (simp add: toString10.simps [of n])

lemma seed1: "token0 @ indexToString (int 0 + 1) = token0 @ js ''1''"
  by (simp add: indexToString_def toString10_digit js_def)

lemma seed2: "token0 @ indexToString (int 1 + 1) = token0 @ js ''2''"
  by (simp add: indexToString_def toString10_digit js_def)

lemma seed1d: "token0 @ indexToString (int 0 + 1) @ js ''d'' = token0 @ js ''1d''"
  by (simp add: indexToString_def toString10_digit js_def)

lemma seed2d: "token0 @ indexToString (int 1 + 1) @ js ''d'' = token0 @ js ''2d''"
  by (simp add: indexToString_def toString10_digit js_def)

lemma hash1: "fnv1a_ref (token0 @ js ''1'') = 2239945844"
  by (simp add: fnv1a_ref_def token0_def js_def)

lemma hash1d: "fnv1a_ref (token0 @ js ''1d'') = 1023438128"
  by (simp add: fnv1a_ref_def token0_def js_def)

lemma hash2: "fnv1a_ref (token0 @ js ''2'') = 2290278701"
  by (simp add: fnv1a_ref_def token0_def js_def)

lemma hash2d: "fnv1a_ref (token0 @ js ''2d'') = 789095915"
  by (simp add: fnv1a_ref_def token0_def js_def)

lemmas stream_eval = derive_from_def xorshift32_def hex8_def nibble_def hexDigit_def js_def Let_def

lemma salt1: "derive_from 2239945844 4 = js ''1f8a''"
  by (simp add: stream_eval)

lemma target1: "derive_from 1023438128 1 = js ''2''"
  by (simp add: stream_eval)

lemma salt2: "derive_from 2290278701 4 = js ''4042''"
  by (simp add: stream_eval)

lemma target2: "derive_from 789095915 1 = js ''4''"
  by (simp add: stream_eval)

lemma puzzle0_0: "puzzle token0 params0 0 = (js ''1f8a'', js ''2'')"
  by (simp only: puzzle_def Let_def seed1 seed1d prng_refines derive_units_def hash1 hash1d
      params0_def ChallengeParams.simps salt1 target1)

lemma puzzle0_1: "puzzle token0 params0 1 = (js ''4042'', js ''4'')"
  by (simp only: puzzle_def Let_def seed2 seed2d prng_refines derive_units_def hash2 hash2d
      params0_def ChallengeParams.simps salt2 target2)

lemma puzzles0: "puzzles token0 params0 = [(js ''1f8a'', js ''2''), (js ''4042'', js ''4'')]"
proof -
  have "[0..<nat (cp_c params0)] = [0, 1]"
    by (simp add: params0_def upt_rec)
  then have "puzzles token0 params0 = map (puzzle token0 params0) [0, 1]"
    by (simp only: puzzles_def)
  then show ?thesis
    by (simp only: list.map puzzle0_0 puzzle0_1)
qed

subsection \<open>All puzzles pass\<close>

lemma validBody:
  "\<not> invalidBody token solutions \<Longrightarrow>
     token \<noteq> [] \<and> (\<exists>sols. solutions = JArr sols \<and> list_all isNumber sols)"
  by (cases solutions) (simp_all add: invalidBody_def list_ex_iff list_all_iff)

lemma isNumber_defined: "isNumber v \<Longrightarrow> v \<noteq> JUndefined"
  by (cases v) simp_all

lemma isValid_solved:
  assumes "list_all isNumber sols"
  shows "isValid H sols (puzzle token params k) k = solved H token params sols (int k + 1)"
proof -
  have "k < length sols \<Longrightarrow> sols ! k \<noteq> JUndefined"
    using assms by (simp add: list_all_length isNumber_defined)
  then show ?thesis
    by (auto simp add: isValid_def puzzle_def solved_def Let_def)
qed

lemma all_valid_iff:
  "list_all (\<lambda>b. b) (isValidArr H sols (puzzles token params))
     = (\<forall>k < nat (cp_c params). isValid H sols (puzzle token params k) k)"
  by (simp add: isValidArr_def puzzles_def list_all_length)

lemma index_shift:
  "(\<forall>k < nat c. P (int k + 1)) = (\<forall>i. 1 \<le> i \<and> i \<le> c \<longrightarrow> P i)"
proof
  assume a: "\<forall>k < nat c. P (int k + 1)"
  show "\<forall>i. 1 \<le> i \<and> i \<le> c \<longrightarrow> P i"
  proof (intro allI impI)
    fix i :: int
    assume i: "1 \<le> i \<and> i \<le> c"
    then have "nat (i - 1) < nat c" by arith
    with a have "P (int (nat (i - 1)) + 1)" by blast
    moreover have "int (nat (i - 1)) + 1 = i" using i by simp
    ultimately show "P i" by simp
  qed
next
  assume a: "\<forall>i. 1 \<le> i \<and> i \<le> c \<longrightarrow> P i"
  show "\<forall>k < nat c. P (int k + 1)"
  proof (intro allI impI)
    fix k :: nat
    assume "k < nat c"
    then have "1 \<le> int k + 1 \<and> int k + 1 \<le> c" by arith
    with a show "P (int k + 1)" by blast
  qed
qed

lemma all_valid_solved:
  assumes "list_all isNumber sols"
  shows "list_all (\<lambda>b. b) (isValidArr H sols (puzzles token params))
     = (\<forall>i. 1 \<le> i \<and> i \<le> cp_c params \<longrightarrow> solved H token params sols i)"
  by (simp only: all_valid_iff isValid_solved [OF assms] index_shift)

subsection \<open>Random hex strings\<close>

lemma render_byte: "padStart 2 48 (toString16 (unat (b :: 8 word))) = hexN 2 (unat b)"
proof -
  have "unat b < 16 ^ 2"
    using unsigned_less [of b, where ?'a = nat] by simp
  then show ?thesis
    by (simp add: pad_toString16)
qed


lemma randomHex_Suc: "randomHex (Suc n) entropy = randomHex n entropy @ hexN 2 (unat (entropy n))"
  by (simp add: randomHex_def render_byte)

lemma length_randomHex: "length (randomHex n entropy) = 2 * n"
proof (induction n)
  case 0
  show ?case by (simp add: randomHex_def)
next
  case (Suc n)
  then show ?case by (simp add: randomHex_Suc length_hexN)
qed


lemma randomHex_nonempty: "0 < n \<Longrightarrow> randomHex n entropy \<noteq> []"
  using length_randomHex [of n entropy] by auto

subsection \<open>The example's solutions\<close>

lemma token0_nonempty: "token0 \<noteq> []"
  by (simp add: token0_def js_def)

lemma puzzle0_Suc: "puzzle token0 params0 (Suc 0) = (js ''4042'', js ''4'')"
  using puzzle0_1 by simp

lemma example_body: "\<not> invalidBody token0 (JArr [JNum a, JNum b])"
  by (simp add: invalidBody_def token0_nonempty)

lemma example_body3: "\<not> invalidBody token0 (JArr [JNum a, JNum b, JNum c])"
  by (simp add: invalidBody_def token0_nonempty)

lemma example_valid0: "isValid sha256Known (JNum (js ''21'') # rest) (js ''1f8a'', js ''2'') 0"
  by (simp add: isValid_def sha256Known_def js_def)

lemma example_valid1: "isValid sha256Known (a # JNum (js ''1'') # rest) (js ''4042'', js ''4'') (Suc 0)"
  by (simp add: isValid_def sha256Known_def js_def)

lemma example_invalid1: "\<not> isValid sha256Known (a # JNum (js ''0'') # rest) (js ''4042'', js ''4'') (Suc 0)"
  by (simp add: isValid_def sha256Known_def js_def)

lemma example_isValidArr:
  "isValidArr sha256Known sols (puzzles token0 params0)
     = [isValid sha256Known sols (js ''1f8a'', js ''2'') 0,
        isValid sha256Known sols (js ''4042'', js ''4'') (Suc 0)]"
proof -
  have "[0..<length (puzzles token0 params0)] = [0, Suc 0]"
    by (simp add: puzzles0 upt_rec)
  then show ?thesis
    by (simp add: isValidArr_def puzzles0)
qed

lemma example_all_valid:
  "list_all (\<lambda>b. b) (isValidArr sha256Known (JNum (js ''21'') # JNum (js ''1'') # rest) (puzzles token0 params0))"
  by (simp add: example_isValidArr example_valid0 example_valid1)

lemma example_not_all_valid:
  "\<not> list_all (\<lambda>b. b) (isValidArr sha256Known (JNum (js ''21'') # JNum (js ''0'') # rest) (puzzles token0 params0))"
  by (simp add: example_isValidArr example_invalid1)

lemma example_solved:
  "\<forall>i. 1 \<le> i \<and> i \<le> cp_c params0 \<longrightarrow> solved sha256Known token0 params0 [JNum (js ''21''), JNum (js ''1'')] i"
proof -
  have "list_all isNumber [JNum (js ''21''), JNum (js ''1'')]"
    by simp
  from all_valid_solved [OF this, of sha256Known token0 params0] example_all_valid [of "[]"]
  show ?thesis by simp
qed

lemma example_unsolved:
  "\<not> solved sha256Known token0 params0 [JNum (js ''21''), JNum (js ''0'')] 2"
proof -
  have "list_all isNumber [JNum (js ''21''), JNum (js ''0'')]"
    by simp
  from isValid_solved [OF this, of sha256Known token0 params0 "Suc 0"]
  have "solved sha256Known token0 params0 [JNum (js ''21''), JNum (js ''0'')] 2
      = isValid sha256Known [JNum (js ''21''), JNum (js ''0'')] (js ''4042'', js ''4'') (Suc 0)"
    by (simp add: puzzle0_Suc)
  then show ?thesis
    by (simp add: example_invalid1)
qed

subsection \<open>The example's redemption\<close>

lemma zeroBytes_unat: "unat (zeroBytes n) = 0"
  by (simp add: zeroBytes_def)

lemma randomHex_zero: "randomHex n zeroBytes = replicate (2 * n) 48"
proof (induction n)
  case 0
  show ?case by (simp add: randomHex_def)
next
  case (Suc n)
  have "replicate (2 * n) (48::char16) @ replicate 2 48 = replicate (2 * Suc n) 48"
    by (simp only: replicate_add [symmetric]) simp
  then show ?case
    by (simp only: randomHex_Suc Suc zeroBytes_unat hexN_zero)
qed

lemma zeros16: "randomHex 8 zeroBytes = js ''0000000000000000''"
  by (simp add: randomHex_zero js_def eval_nat_numeral)

lemma zeros30: "randomHex 15 zeroBytes = js ''000000000000000000000000000000''"
  by (simp add: randomHex_zero js_def eval_nat_numeral)

lemma issued_example: "issued zeroBytes zeroBytes 2000 = issued0"
  by (simp add: issued_def issued0_def zeros16 zeros30) (simp add: js_def)

lemma key_example:
  "randomHex 8 zeroBytes @ js '':'' @ sha256Known (randomHex 15 zeroBytes)
     = js ''0000000000000000:22aec58889504ab835d6fc62b79cd342cf13a6202883dd013781005b49e59df2''"
  by (simp add: zeros16 zeros30 sha256Known_def) (simp add: js_def)

lemma example_success:
  "\<not> list_ex (\<lambda>s. \<not> isNumber s) rest \<Longrightarrow>
   redeemChallenge memConfig sha256Known zeroBytes zeroBytes 1000 2000 token0
      (JArr (JNum (js ''21'') # JNum (js ''1'') # rest)) state0 = (Returns issued0, state1)"
proof -
  assume rest: "\<not> list_ex (\<lambda>s. \<not> isNumber s) rest"
  have valid: "\<not> invalidBody token0 (JArr (JNum (js ''21'') # JNum (js ''1'') # rest))"
    using rest by (simp add: invalidBody_def token0_nonempty)
  show ?thesis
    by (simp add: redeem_mem [OF valid] state0_def state1_def example_all_valid issued_example
        key_example Let_def)
qed

subsection \<open>Entries past the count\<close>





subsection \<open>Rejected bodies, and creation\<close>


lemma storeChallenge_mem:
  "(case challenges (storage memConfig) of Some hooks \<Rightarrow> cs_store hooks token data | None \<Rightarrow> return_io ()) st =
     (Returns (), st\<lparr>challengesList := (challengesList st)(token \<mapsto> data)\<rparr>)"
  by (simp add: memConfig_def memChallenges_def)

lemma create_mem:
  assumes "store conf \<noteq> Some False"
  shows "createChallenge memConfig entropy now (Some conf) st =
    (let challenge = \<lparr>cp_c = orDefault (challengeCount conf) 50,
                       cp_s = orDefault (challengeSize conf) 32,
                       cp_d = orDefault (challengeDifficulty conf) 4\<rparr>;
         expires = now + orDefault (expiresMs conf) 600000
     in (Returns \<lparr>cr_challenge = challenge, cr_token = Some (randomHex 25 entropy), cr_expires = expires\<rparr>,
         st\<lparr>challengesList := (challengesList st)
              (randomHex 25 entropy \<mapsto> \<lparr>cd_challenge = challenge, cd_expires = expires\<rparr>)\<rparr>))"
  using assms
  by (simp add: createChallenge_def Let_def await_Returns [OF storeChallenge_mem] return_io_def)

subsection \<open>The steps of a successful redemption\<close>



subsection \<open>Substrings across a separator\<close>



subsection \<open>Hex encoding\<close>

lemma hexDigit_table: "v < 16 \<Longrightarrow> hexDigit v = js ''0123456789abcdef'' ! v"
proof -
  assume "v < 16"
  then have "v \<in> set [0, 1, 2, 3, 4, 5, 6, 7, 8, 9, 10, 11, 12, 13, 14, 15]"
    by (rule enum16)
  moreover have "\<forall>v \<in> set [0, 1, 2, 3, 4, 5, 6, 7, 8, 9, 10, 11, 12, 13, 14, 15].
      hexDigit v = js ''0123456789abcdef'' ! v"
    by (simp add: hexDigit_def js_def)
  ultimately show ?thesis by blast
qed

lemma hexPair_render: "padStart 2 48 (toString16 (unat (b :: 8 word))) = hexPair b"
proof -
  have less: "unat b < 256"
    using unsigned_less [of b, where ?'a = nat] by simp
  then have hi: "unat b div 16 < 16"
    by simp
  have "hexN 2 (unat b) = [hexDigit (unat b div 16 mod 16), hexDigit (unat b mod 16)]"
    by (simp add: numeral_2_eq_2)
  also have "\<dots> = hexPair b"
    using hi by (simp add: hexPair_def hexDigit_table)
  finally show ?thesis
    by (simp only: render_byte)
qed

lemma randomHex_hexEncode: "randomHex n entropy = hexEncode (map entropy [0..<n])"
  by (simp add: randomHex_def hexEncode_def hexPair_render comp_def)





lemma zeros_encoded16: "hexEncode (map zeroBytes [0..<8]) = js ''0000000000000000''"
  by (simp only: randomHex_hexEncode [symmetric] zeros16)

lemma zeros_encoded30: "hexEncode (map zeroBytes [0..<15]) = js ''000000000000000000000000000000''"
  by (simp only: randomHex_hexEncode [symmetric] zeros30)

lemma zeros_encoded50: "hexEncode (map zeroBytes [0..<25]) = token0"
proof -
  have "randomHex 25 zeroBytes = token0"
    by (simp add: randomHex_zero token0_def js_def eval_nat_numeral)
  then show ?thesis
    by (simp only: randomHex_hexEncode [symmetric])
qed

subsection \<open>The backend without a token store\<close>

lemma getChallenge_noTokenHooks:
  "getChallenge noTokenHooks token st = (Returns (challengesList st token), st)"
  by (simp add: getChallenge_def noTokenHooks_def memChallenges_def)

lemma deleteChallenge_noTokenHooks:
  "deleteChallenge noTokenHooks token st =
     (Returns (), st\<lparr>challengesList := (challengesList st)(token := None)\<rparr>)"
  by (simp add: deleteChallenge_def noTokenHooks_def memChallenges_def)

lemma redeem_noTokenHooks:
  assumes "\<not> invalidBody token solutions"
  shows "redeemChallenge noTokenHooks H e1 e2 now1 now2 token solutions st =
    (let st1 = st\<lparr>challengesList := (challengesList st)(token := None)\<rparr> in
     case challengesList st token of
       None \<Rightarrow> (Returns (rejected ''Challenge invalid or expired''), st1)
     | Some cd \<Rightarrow>
         if cd_expires cd < now1 then (Returns (rejected ''Challenge invalid or expired''), st1)
         else if \<not> list_all (\<lambda>b. b) (isValidArr H (elements solutions) (puzzles token (cd_challenge cd)))
         then (Returns (rejected ''Invalid solution''), st1)
         else (Returns (issued e1 e2 now2), st1))"
proof -
  have none: "(case tokens (storage noTokenHooks) of Some hooks \<Rightarrow> ts_store hooks key e | None \<Rightarrow> return_io ()) s
      = (Returns (), s)" for key e s
    by (simp add: noTokenHooks_def return_io_def)
  show ?thesis
    using assms
    by (simp add: redeemChallenge_def await_Returns [OF getChallenge_noTokenHooks]
        await_Returns [OF deleteChallenge_noTokenHooks]
        await_Returns [OF none] return_io_def issued_def Let_def split: option.splits)
qed

lemma example_noTokenHooks:
  "redeemChallenge noTokenHooks sha256Known zeroBytes zeroBytes 1000 2000 token0
      (JArr [JNum (js ''21''), JNum (js ''1'')]) state0 = (Returns issued0, emptyState)"
proof -
  have valid: "\<not> invalidBody token0 (JArr [JNum (js ''21''), JNum (js ''1'')])"
    by (rule example_body)
  show ?thesis
    by (simp add: redeem_noTokenHooks [OF valid] state0_def emptyState_def example_all_valid
        issued_example Let_def)
qed

subsection \<open>A solution in exponent form\<close>

lemma seedE: "tokenE @ indexToString 1 = js ''t381''"
  by (simp add: tokenE_def indexToString_def toString10_digit js_def)

lemma hashE: "fnv1a_ref (js ''t381'') = 2107552651"
  by (simp add: fnv1a_ref_def js_def)

lemma hashEd: "fnv1a_ref (js ''t381'' @ js ''d'') = 2949988669"
  by (simp add: fnv1a_ref_def js_def)

lemma saltE: "derive_from 2107552651 4 = js ''d61f''"
  by (simp add: stream_eval)

lemma targetE: "derive_from 2949988669 1 = js ''f''"
  by (simp add: stream_eval)

lemma solvedE: "solved sha256Known tokenE paramsE [JNum (js ''1e+21'')] 1"
proof -
  have salt: "prng (tokenE @ indexToString 1) (cp_s paramsE) = js ''d61f''"
    by (simp only: seedE prng_refines derive_units_def hashE paramsE_def ChallengeParams.simps saltE)
  have "tokenE @ indexToString 1 @ js ''d'' = js ''t381'' @ js ''d''"
    by (simp only: seedE [symmetric] append_assoc)
  then have target: "prng (tokenE @ indexToString 1 @ js ''d'') (cp_d paramsE) = js ''f''"
    by (simp only: prng_refines derive_units_def hashEd paramsE_def ChallengeParams.simps targetE)
  have "prefix (js ''f'') (sha256Known (js ''d61f'' @ ToString (JNum (js ''1e+21''))))"
    by (simp add: sha256Known_def js_def)
  then show ?thesis
    by (simp add: solved_def salt target)
qed

lemma example_exponent:
  "\<forall>i. 1 \<le> i \<and> i \<le> cp_c paramsE \<longrightarrow> solved sha256Known tokenE paramsE [JNum (js ''1e+21'')] i"
proof (intro allI impI)
  fix i :: int
  assume "1 \<le> i \<and> i \<le> cp_c paramsE"
  then have "i = 1"
    by (simp add: paramsE_def)
  then show "solved sha256Known tokenE paramsE [JNum (js ''1e+21'')] i"
    by (simp add: solvedE)
qed

lemma tokenE_body: "\<not> invalidBody tokenE (JArr [JNum a])"
  by (simp add: invalidBody_def tokenE_def js_def)

section \<open>Properties of redemption\<close>

text \<open>
  Claim C1. For a stored, unexpired challenge and a request that passes the body check,
  \<open>redeemChallenge\<close> returns a result, and the result is a success exactly when every
  puzzle \<open>i\<close> from 1 to the count is solved: the entry \<open>i - 1\<close> of the solutions exists and
  the digest of \<open>prng (token + i) size\<close> followed by it starts with
  \<open>prng (token + i + "d") difficulty\<close>. One unsolved or missing entry makes the result
  the rejection \<^verbatim>\<open>Invalid solution\<close>, whatever the other entries are.
\<close>

theorem redeemChallenge_all_or_nothing:
  assumes stored: "challengesList st token = Some cd"
    and unexpired: "\<not> cd_expires cd < now1"
    and valid: "\<not> invalidBody token solutions"
  shows "\<exists>res st'.
      redeemChallenge memConfig sha256Hex entropy1 entropy2 now1 now2 token solutions st = (Returns res, st')
      \<and> (rr_success res \<longleftrightarrow>
           (\<forall>i. 1 \<le> i \<and> i \<le> cp_c (cd_challenge cd) \<longrightarrow>
                solved sha256Hex token (cd_challenge cd) (elements solutions) i))
      \<and> ((\<exists>i. 1 \<le> i \<and> i \<le> cp_c (cd_challenge cd) \<and>
                \<not> solved sha256Hex token (cd_challenge cd) (elements solutions) i)
           \<longrightarrow> res = rejected ''Invalid solution'')"
proof -
  from validBody [OF valid] obtain sols where sols: "solutions = JArr sols" "list_all isNumber sols"
    by blast
  have numbers: "list_all isNumber (elements solutions)"
    using sols by simp
  show ?thesis
    using stored unexpired
    by (simp add: redeem_mem [OF valid] all_valid_solved [OF numbers] Let_def issued_def rejected_def)
qed

text \<open>
  At the example: the solutions 21 and 1 solve both puzzles and the redemption succeeds;
  with 0 in place of 1 the second puzzle fails and the redemption is rejected. At the
  challenge under \<^verbatim>\<open>t38\<close>: the solution \<open>10\<^sup>2\<^sup>1\<close> is hashed as \<^verbatim>\<open>1e+21\<close> and the redemption
  succeeds.
\<close>

theorem redeemChallenge_all_or_nothing_witness:
  "challengesList state0 token0 = Some \<lparr>cd_challenge = params0, cd_expires = 600000\<rparr>
   \<and> \<not> (600000 < (1000 :: int))
   \<and> \<not> invalidBody token0 (JArr [JNum (js ''21''), JNum (js ''1'')])
   \<and> \<not> invalidBody token0 (JArr [JNum (js ''21''), JNum (js ''0'')])
   \<and> (\<exists>res st'. redeemChallenge memConfig sha256Known zeroBytes zeroBytes 1000 2000 token0
          (JArr [JNum (js ''21''), JNum (js ''1'')]) state0 = (Returns res, st') \<and> rr_success res)
   \<and> (\<exists>st'. redeemChallenge memConfig sha256Known zeroBytes zeroBytes 1000 2000 token0
          (JArr [JNum (js ''21''), JNum (js ''0'')]) state0 = (Returns (rejected ''Invalid solution''), st'))
   \<and> challengesList stateE tokenE = Some \<lparr>cd_challenge = paramsE, cd_expires = 600000\<rparr>
   \<and> \<not> invalidBody tokenE (JArr [JNum (js ''1e+21'')])
   \<and> (\<exists>res st'. redeemChallenge memConfig sha256Known zeroBytes zeroBytes 1000 2000 tokenE
          (JArr [JNum (js ''1e+21'')]) stateE = (Returns res, st') \<and> rr_success res)"
proof -
  let ?cd = "\<lparr>cd_challenge = params0, cd_expires = 600000\<rparr>"
  let ?cdE = "\<lparr>cd_challenge = paramsE, cd_expires = 600000\<rparr>"
  have stored: "challengesList state0 token0 = Some ?cd"
    by (simp add: state0_def)
  have unexpired: "\<not> cd_expires ?cd < 1000"
    by simp
  have good: "\<not> invalidBody token0 (JArr [JNum (js ''21''), JNum (js ''1'')])"
    by (simp add: example_body)
  have bad: "\<not> invalidBody token0 (JArr [JNum (js ''21''), JNum (js ''0'')])"
    by (simp add: example_body)
  have two: "(1::int) \<le> 2 \<and> 2 \<le> cp_c params0"
    by (simp add: params0_def)
  from redeemChallenge_all_or_nothing [OF stored unexpired good, of sha256Known zeroBytes zeroBytes 2000]
    example_solved
  have ok: "\<exists>res st'. redeemChallenge memConfig sha256Known zeroBytes zeroBytes 1000 2000 token0
          (JArr [JNum (js ''21''), JNum (js ''1'')]) state0 = (Returns res, st') \<and> rr_success res"
    by auto
  have ex: "\<exists>i. 1 \<le> i \<and> i \<le> cp_c params0 \<and> \<not> solved sha256Known token0 params0 [JNum (js ''21''), JNum (js ''0'')] i"
    using example_unsolved two by (intro exI [of _ 2]) simp
  from redeemChallenge_all_or_nothing [OF stored unexpired bad, of sha256Known zeroBytes zeroBytes 2000]
  obtain res st' where run: "redeemChallenge memConfig sha256Known zeroBytes zeroBytes 1000 2000 token0
          (JArr [JNum (js ''21''), JNum (js ''0'')]) state0 = (Returns res, st')"
    and imp: "(\<exists>i. 1 \<le> i \<and> i \<le> cp_c params0 \<and> \<not> solved sha256Known token0 params0 [JNum (js ''21''), JNum (js ''0'')] i)
          \<longrightarrow> res = rejected ''Invalid solution''"
    by auto
  from imp ex have "res = rejected ''Invalid solution''"
    by (rule mp)
  with run have ko: "\<exists>st'. redeemChallenge memConfig sha256Known zeroBytes zeroBytes 1000 2000 token0
          (JArr [JNum (js ''21''), JNum (js ''0'')]) state0 = (Returns (rejected ''Invalid solution''), st')"
    by blast
  have storedE: "challengesList stateE tokenE = Some ?cdE"
    by (simp add: stateE_def)
  have unexpiredE: "\<not> cd_expires ?cdE < 1000"
    by simp
  have bodyE: "\<not> invalidBody tokenE (JArr [JNum (js ''1e+21'')])"
    by (rule tokenE_body)
  from redeemChallenge_all_or_nothing [OF storedE unexpiredE bodyE, of sha256Known zeroBytes zeroBytes 2000]
    example_exponent
  have okE: "\<exists>res st'. redeemChallenge memConfig sha256Known zeroBytes zeroBytes 1000 2000 tokenE
          (JArr [JNum (js ''1e+21'')]) stateE = (Returns res, st') \<and> rr_success res"
    by auto
  from stored good bad ok ko storedE bodyE okE show ?thesis
    by simp
qed

text \<open>
  Claim C2. Every call whose body passes the check returns a result and leaves no
  challenge under the token, whatever the outcome; any later redemption of the same
  token that passes the body check is rejected with \<^verbatim>\<open>Challenge invalid or expired\<close>.
  So a challenge is redeemed with success at most once.
\<close>

theorem redeemChallenge_consumes:
  assumes valid: "\<not> invalidBody token solutions"
  shows "\<exists>res st'.
      redeemChallenge memConfig sha256Hex entropy1 entropy2 now1 now2 token solutions st = (Returns res, st')
      \<and> challengesList st' token = None
      \<and> (\<forall>entropy1' entropy2' now1' now2' solutions'.
            \<not> invalidBody token solutions' \<longrightarrow>
            (\<exists>st''. redeemChallenge memConfig sha256Hex entropy1' entropy2' now1' now2' token solutions' st'
                 = (Returns (rejected ''Challenge invalid or expired''), st'')))"
proof -
  have "\<exists>res st'.
      redeemChallenge memConfig sha256Hex entropy1 entropy2 now1 now2 token solutions st = (Returns res, st')
      \<and> challengesList st' token = None"
    by (simp add: redeem_mem [OF valid] Let_def split: option.split)
  then obtain res st' where run:
    "redeemChallenge memConfig sha256Hex entropy1 entropy2 now1 now2 token solutions st = (Returns res, st')"
    and gone: "challengesList st' token = None"
    by blast
  have again: "\<exists>st''. redeemChallenge memConfig sha256Hex entropy1' entropy2' now1' now2' token solutions' st'
                 = (Returns (rejected ''Challenge invalid or expired''), st'')"
    if "\<not> invalidBody token solutions'" for entropy1' entropy2' now1' now2' solutions'
    using gone by (simp add: redeem_mem [OF that] Let_def)
  from run gone again show ?thesis
    by blast
qed

text \<open>At the example: the first redemption succeeds, the second is rejected.\<close>

theorem redeemChallenge_consumes_witness:
  "\<not> invalidBody token0 (JArr [JNum (js ''21''), JNum (js ''1'')])
   \<and> redeemChallenge memConfig sha256Known zeroBytes zeroBytes 1000 2000 token0
        (JArr [JNum (js ''21''), JNum (js ''1'')]) state0 = (Returns issued0, state1)
   \<and> challengesList state1 token0 = None
   \<and> (\<exists>st''. redeemChallenge memConfig sha256Known zeroBytes zeroBytes 3000 4000 token0
        (JArr [JNum (js ''21''), JNum (js ''1'')]) state1 = (Returns (rejected ''Challenge invalid or expired''), st''))"
proof -
  have valid: "\<not> invalidBody token0 (JArr [JNum (js ''21''), JNum (js ''1'')])"
    by (rule example_body)
  have first: "redeemChallenge memConfig sha256Known zeroBytes zeroBytes 1000 2000 token0
        (JArr [JNum (js ''21''), JNum (js ''1'')]) state0 = (Returns issued0, state1)"
    by (rule example_success) simp
  from redeemChallenge_consumes [OF valid, of sha256Known zeroBytes zeroBytes 1000 2000 state0]
  obtain res st' where run: "redeemChallenge memConfig sha256Known zeroBytes zeroBytes 1000 2000 token0
        (JArr [JNum (js ''21''), JNum (js ''1'')]) state0 = (Returns res, st')"
    and gone: "challengesList st' token0 = None"
    and again: "\<forall>entropy1' entropy2' now1' now2' solutions'.
            \<not> invalidBody token0 solutions' \<longrightarrow>
            (\<exists>st''. redeemChallenge memConfig sha256Known entropy1' entropy2' now1' now2' token0 solutions' st'
                 = (Returns (rejected ''Challenge invalid or expired''), st''))"
    by blast
  from run first have st': "st' = state1"
    by simp
  from again valid have "\<exists>st''. redeemChallenge memConfig sha256Known zeroBytes zeroBytes 3000 4000 token0
        (JArr [JNum (js ''21''), JNum (js ''1'')]) st' = (Returns (rejected ''Challenge invalid or expired''), st'')"
    by blast
  with valid first gone st' show ?thesis
    by simp
qed






text \<open>
  Claim C8 as stated fails: on the in-memory backend configured without a token store
  the example's redemption succeeds and returns a token, and nothing is persisted.
\<close>

theorem redeemChallenge_without_token_store_counterexample:
  "redeemChallenge noTokenHooks sha256Known zeroBytes zeroBytes 1000 2000 token0
       (JArr [JNum (js ''21''), JNum (js ''1'')]) state0 = (Returns issued0, emptyState)
   \<and> rr_success issued0
   \<and> rr_token issued0 = Some (js ''0000000000000000:000000000000000000000000000000'')
   \<and> tokensList emptyState = Map.empty"
  by (simp add: example_noTokenHooks issued0_def emptyState_def)

text \<open>
  Claim C9. \<open>createChallenge\<close> with \<open>challengeCount = 0\<close> (and \<^verbatim>\<open>store\<close> not false) keeps the
  count 0, returns a non-empty token, the hex encoding of 25 random bytes, and stores the
  challenge under it. For every stored, unexpired challenge of count 0 under a non-empty
  token, the redemption with the empty solutions array succeeds and issues a
  verification token: it returns \<open>id:secret\<close> with the expiry \<open>now + 20 minutes\<close>, deletes
  the challenge and stores the key \<open>id:sha256Hex secret\<close>. No puzzle is checked.
\<close>

theorem zero_count_challenge_redeems:
  "(challengeCount conf = Some 0 \<and> store conf \<noteq> Some False \<longrightarrow>
      (let tok = hexEncode (map entropy [0..<25]);
           params = \<lparr>cp_c = 0, cp_s = orDefault (challengeSize conf) 32,
                     cp_d = orDefault (challengeDifficulty conf) 4\<rparr>;
           expires = now + orDefault (expiresMs conf) 600000
       in tok \<noteq> []
        \<and> createChallenge memConfig entropy now (Some conf) st0
            = (Returns \<lparr>cr_challenge = params, cr_token = Some tok, cr_expires = expires\<rparr>,
               st0\<lparr>challengesList := (challengesList st0)
                     (tok \<mapsto> \<lparr>cd_challenge = params, cd_expires = expires\<rparr>)\<rparr>)))
   \<and> (challengesList st token = Some cd \<and> cp_c (cd_challenge cd) = 0
        \<and> \<not> cd_expires cd < now1 \<and> token \<noteq> [] \<longrightarrow>
      (let secret = hexEncode (map entropy1 [0..<15]);
           id' = hexEncode (map entropy2 [0..<8])
       in redeemChallenge memConfig sha256Hex entropy1 entropy2 now1 now2 token (JArr []) st
            = (Returns \<lparr>rr_success = True, rr_message = None,
                        rr_token = Some (id' @ js '':'' @ secret),
                        rr_expires = Some (now2 + 20 * 60 * 1000)\<rparr>,
               st\<lparr>challengesList := (challengesList st)(token := None),
                  tokensList := (tokensList st)
                    (id' @ js '':'' @ sha256Hex secret \<mapsto> now2 + 20 * 60 * 1000)\<rparr>)))"
proof (intro conjI impI)
  assume h: "challengeCount conf = Some 0 \<and> store conf \<noteq> Some False"
  then have stored: "store conf \<noteq> Some False"
    by simp
  have "randomHex 25 entropy \<noteq> []"
    by (simp add: randomHex_nonempty)
  moreover have "createChallenge memConfig entropy now (Some conf) st0
      = (Returns \<lparr>cr_challenge = \<lparr>cp_c = 0, cp_s = orDefault (challengeSize conf) 32,
                     cp_d = orDefault (challengeDifficulty conf) 4\<rparr>,
                  cr_token = Some (randomHex 25 entropy),
                  cr_expires = now + orDefault (expiresMs conf) 600000\<rparr>,
         st0\<lparr>challengesList := (challengesList st0)
             (randomHex 25 entropy \<mapsto>
                \<lparr>cd_challenge = \<lparr>cp_c = 0, cp_s = orDefault (challengeSize conf) 32,
                     cp_d = orDefault (challengeDifficulty conf) 4\<rparr>,
                 cd_expires = now + orDefault (expiresMs conf) 600000\<rparr>)\<rparr>)"
    using h by (simp add: create_mem [OF stored] Let_def orDefault_def)
  ultimately show "let tok = hexEncode (map entropy [0..<25]);
           params = \<lparr>cp_c = 0, cp_s = orDefault (challengeSize conf) 32,
                     cp_d = orDefault (challengeDifficulty conf) 4\<rparr>;
           expires = now + orDefault (expiresMs conf) 600000
       in tok \<noteq> []
        \<and> createChallenge memConfig entropy now (Some conf) st0
            = (Returns \<lparr>cr_challenge = params, cr_token = Some tok, cr_expires = expires\<rparr>,
               st0\<lparr>challengesList := (challengesList st0)
                     (tok \<mapsto> \<lparr>cd_challenge = params, cd_expires = expires\<rparr>)\<rparr>)"
    by (simp only: Let_def randomHex_hexEncode) simp
next
  assume h: "challengesList st token = Some cd \<and> cp_c (cd_challenge cd) = 0
        \<and> \<not> cd_expires cd < now1 \<and> token \<noteq> []"
  then have valid: "\<not> invalidBody token (JArr [])"
    by (simp add: invalidBody_def)
  have "redeemChallenge memConfig sha256Hex entropy1 entropy2 now1 now2 token (JArr []) st
            = (Returns \<lparr>rr_success = True, rr_message = None,
                        rr_token = Some (randomHex 8 entropy2 @ js '':'' @ randomHex 15 entropy1),
                        rr_expires = Some (now2 + 20 * 60 * 1000)\<rparr>,
               st\<lparr>challengesList := (challengesList st)(token := None),
                  tokensList := (tokensList st)
                    (randomHex 8 entropy2 @ js '':'' @ sha256Hex (randomHex 15 entropy1)
                       \<mapsto> now2 + 20 * 60 * 1000)\<rparr>)"
    using h by (simp add: redeem_mem [OF valid] Let_def puzzles_def isValidArr_def issued_def)
  then show "let secret = hexEncode (map entropy1 [0..<15]);
           id' = hexEncode (map entropy2 [0..<8])
       in redeemChallenge memConfig sha256Hex entropy1 entropy2 now1 now2 token (JArr []) st
            = (Returns \<lparr>rr_success = True, rr_message = None,
                        rr_token = Some (id' @ js '':'' @ secret),
                        rr_expires = Some (now2 + 20 * 60 * 1000)\<rparr>,
               st\<lparr>challengesList := (challengesList st)(token := None),
                  tokensList := (tokensList st)
                    (id' @ js '':'' @ sha256Hex secret \<mapsto> now2 + 20 * 60 * 1000)\<rparr>)"
    by (simp only: Let_def randomHex_hexEncode)
qed

text \<open>
  At the empty store: the challenge created at time 0 is redeemed at time 1000 with no
  solution at all.
\<close>

theorem zero_count_challenge_redeems_witness:
  "challengeCount conf0 = Some 0
   \<and> store conf0 \<noteq> Some False
   \<and> createChallenge memConfig zeroBytes 0 (Some conf0) emptyState
        = (Returns \<lparr>cr_challenge = \<lparr>cp_c = 0, cp_s = 32, cp_d = 4\<rparr>,
                    cr_token = Some token0, cr_expires = 600000\<rparr>, stateZ)
   \<and> challengesList stateZ token0
        = Some \<lparr>cd_challenge = \<lparr>cp_c = 0, cp_s = 32, cp_d = 4\<rparr>, cd_expires = 600000\<rparr>
   \<and> \<not> (600000 < (1000 :: int))
   \<and> token0 \<noteq> []
   \<and> redeemChallenge memConfig sha256Known zeroBytes zeroBytes 1000 2000 token0 (JArr []) stateZ
        = (Returns issued0, state1)"
proof -
  let ?cd = "\<lparr>cd_challenge = \<lparr>cp_c = 0, cp_s = 32, cp_d = 4\<rparr>, cd_expires = 600000\<rparr>"
  have count: "challengeCount conf0 = Some 0 \<and> store conf0 \<noteq> Some False"
    by (simp add: conf0_def)
  have held: "challengesList stateZ token0 = Some ?cd \<and> cp_c (cd_challenge ?cd) = 0
      \<and> \<not> cd_expires ?cd < 1000 \<and> token0 \<noteq> []"
    by (simp add: stateZ_def token0_nonempty)
  have digest: "sha256Known (js ''000000000000000000000000000000'')
      = js ''22aec58889504ab835d6fc62b79cd342cf13a6202883dd013781005b49e59df2''"
    by (simp add: sha256Known_def js_def)
  note t = zero_count_challenge_redeems [where conf = conf0 and entropy = zeroBytes and now = 0
      and ?st0.0 = emptyState and st = stateZ and token = token0 and cd = ?cd and ?now1.0 = 1000
      and sha256Hex = sha256Known and ?entropy1.0 = zeroBytes and ?entropy2.0 = zeroBytes
      and ?now2.0 = 2000,
      unfolded Let_def zeros_encoded50 zeros_encoded16 zeros_encoded30 digest]
  from t count have "createChallenge memConfig zeroBytes 0 (Some conf0) emptyState
        = (Returns \<lparr>cr_challenge = \<lparr>cp_c = 0, cp_s = orDefault (challengeSize conf0) 32,
                     cp_d = orDefault (challengeDifficulty conf0) 4\<rparr>,
                    cr_token = Some token0, cr_expires = 0 + orDefault (expiresMs conf0) 600000\<rparr>,
           emptyState\<lparr>challengesList := (challengesList emptyState)
               (token0 \<mapsto> \<lparr>cd_challenge = \<lparr>cp_c = 0, cp_s = orDefault (challengeSize conf0) 32,
                     cp_d = orDefault (challengeDifficulty conf0) 4\<rparr>,
                  cd_expires = 0 + orDefault (expiresMs conf0) 600000\<rparr>)\<rparr>)"
    by blast
  then have created: "createChallenge memConfig zeroBytes 0 (Some conf0) emptyState
        = (Returns \<lparr>cr_challenge = \<lparr>cp_c = 0, cp_s = 32, cp_d = 4\<rparr>,
                    cr_token = Some token0, cr_expires = 600000\<rparr>, stateZ)"
    by (simp add: conf0_def orDefault_def emptyState_def stateZ_def)
  from t held have "redeemChallenge memConfig sha256Known zeroBytes zeroBytes 1000 2000 token0 (JArr []) stateZ
        = (Returns \<lparr>rr_success = True, rr_message = None,
                    rr_token = Some (js ''0000000000000000'' @ js '':'' @ js ''000000000000000000000000000000''),
                    rr_expires = Some (2000 + 20 * 60 * 1000)\<rparr>,
           stateZ\<lparr>challengesList := (challengesList stateZ)(token0 := None),
                  tokensList := (tokensList stateZ)
                    (js ''0000000000000000'' @ js '':'' @ js ''22aec58889504ab835d6fc62b79cd342cf13a6202883dd013781005b49e59df2''
                       \<mapsto> 2000 + 20 * 60 * 1000)\<rparr>)"
    by blast
  then have redeemed: "redeemChallenge memConfig sha256Known zeroBytes zeroBytes 1000 2000 token0 (JArr []) stateZ
        = (Returns issued0, state1)"
    by (simp add: stateZ_def issued0_def state1_def js_def)
  from count held created redeemed show ?thesis
    by simp
qed

section \<open>The validator\<close>

subsection \<open>Splitting at colons\<close>

lemma split_on_nonempty: "split_on sep str \<noteq> []"
  by (induction str) (simp_all split: list.split)

lemma split_on_Cons:
  "ch \<noteq> sep \<Longrightarrow> split_on sep (ch # rest) = (ch # hd (split_on sep rest)) # tl (split_on sep rest)"
  using split_on_nonempty [of sep rest] by (cases "split_on sep rest") simp_all

lemma split_on_single: "sep \<notin> set str \<Longrightarrow> split_on sep str = [str]"
  by (induction str) auto

lemma split_on_single_iff: "split_on sep str = [p] \<longleftrightarrow> p = str \<and> sep \<notin> set str"
proof (induction str arbitrary: p)
  case Nil
  show ?case by auto
next
  case (Cons ch rest)
  show ?case
  proof (cases "ch = sep")
    case True
    then show ?thesis by (simp add: split_on_nonempty)
  next
    case False
    obtain q qs where q: "split_on sep rest = q # qs"
      using split_on_nonempty [of sep rest] by (cases "split_on sep rest") auto
    have "split_on sep (ch # rest) = [p] \<longleftrightarrow> p = ch # q \<and> qs = []"
      using False q by auto
    also have "\<dots> \<longleftrightarrow> p = ch # q \<and> split_on sep rest = [q]"
      using q by auto
    also have "\<dots> \<longleftrightarrow> p = ch # q \<and> q = rest \<and> sep \<notin> set rest"
      by (simp only: Cons.IH)
    also have "\<dots> \<longleftrightarrow> p = ch # rest \<and> sep \<notin> set (ch # rest)"
      using False q split_on_single [of sep rest] by auto
    finally show ?thesis .
  qed
qed

lemma split_on_pair_iff:
  "split_on sep str = [a, b] \<longleftrightarrow> str = a @ sep # b \<and> sep \<notin> set a \<and> sep \<notin> set b"
proof (induction str arbitrary: a)
  case Nil
  show ?case by simp
next
  case (Cons ch rest)
  show ?case
  proof (cases "ch = sep")
    case True
    have "split_on sep (ch # rest) = [a, b] \<longleftrightarrow> a = [] \<and> split_on sep rest = [b]"
      using True by auto
    also have "\<dots> \<longleftrightarrow> a = [] \<and> b = rest \<and> sep \<notin> set rest"
      by (simp only: split_on_single_iff)
    also have "\<dots> \<longleftrightarrow> ch # rest = a @ sep # b \<and> sep \<notin> set a \<and> sep \<notin> set b"
    proof (cases a)
      case Nil
      then show ?thesis using True by auto
    next
      case (Cons x a')
      then show ?thesis using True by auto
    qed
    finally show ?thesis .
  next
    case False
    obtain q qs where q: "split_on sep rest = q # qs"
      using split_on_nonempty [of sep rest] by (cases "split_on sep rest") auto
    have "split_on sep (ch # rest) = [a, b] \<longleftrightarrow> a = ch # q \<and> qs = [b]"
      using False q by auto
    also have "\<dots> \<longleftrightarrow> (\<exists>a'. a = ch # a' \<and> split_on sep rest = [a', b])"
      using q by auto
    also have "\<dots> \<longleftrightarrow> (\<exists>a'. a = ch # a' \<and> rest = a' @ sep # b \<and> sep \<notin> set a' \<and> sep \<notin> set b)"
      by (simp only: Cons.IH)
    also have "\<dots> \<longleftrightarrow> ch # rest = a @ sep # b \<and> sep \<notin> set a \<and> sep \<notin> set b"
    proof (cases a)
      case Nil
      then show ?thesis using False by auto
    next
      case (Cons x a')
      then show ?thesis using False by auto
    qed
    finally show ?thesis .
  qed
qed


lemma validate_not_string:
  "\<not> isString token \<Longrightarrow> validateToken cfg H now token conf st = (Returns \<lparr>vr_success = False\<rparr>, st)"
  by (simp add: validateToken_def return_io_def)

lemma validate_parts:
  assumes "split_on 58 str = [a, b]" and "a \<noteq> []" and "b \<noteq> []"
  shows "validateToken cfg H now (JStr str) conf =
     await (getToken cfg (a @ js '':'' @ H b)) (\<lambda>tokenExpires.
       case tokenExpires of
         None \<Rightarrow> return_io \<lparr>vr_success = False\<rparr>
       | Some e \<Rightarrow>
           if e = 0 then return_io \<lparr>vr_success = False\<rparr>
           else if e > now
           then (if \<not> keeps conf
                 then await (deleteToken cfg (a @ js '':'' @ H b)) (\<lambda>_. return_io \<lparr>vr_success = True\<rparr>)
                 else return_io \<lparr>vr_success = True\<rparr>)
           else return_io \<lparr>vr_success = False\<rparr>)"
proof -
  from assms(1) have "str \<noteq> []"
    by (auto simp add: split_on_pair_iff)
  then show ?thesis
    using assms by (simp add: validateToken_def Let_def)
qed

lemma validate_no_parts:
  assumes "\<forall>a b. split_on 58 str = [a, b] \<longrightarrow> a = [] \<or> b = []"
  shows "validateToken cfg H now (JStr str) conf st = (Returns \<lparr>vr_success = False\<rparr>, st)"
proof (cases "split_on 58 str")
  case Nil
  then show ?thesis
    by (simp add: validateToken_def return_io_def)
next
  case (Cons p ps)
  note one = this
  show ?thesis
  proof (cases ps)
    case Nil
    then show ?thesis
      using one by (simp add: validateToken_def return_io_def)
  next
    case (Cons q qs)
    note two = this
    show ?thesis
    proof (cases qs)
      case Nil
      with one two have "split_on 58 str = [p, q]"
        by simp
      moreover from this assms have "p = [] \<or> q = []"
        by blast
      ultimately show ?thesis
        by (simp add: validateToken_def return_io_def)
    next
      case (Cons r rs)
      then show ?thesis
        using one two by (simp add: validateToken_def return_io_def)
    qed
  qed
qed

subsection \<open>The validator on the two backends\<close>

lemma validate_mem:
  assumes "split_on 58 str = [a, b]" and "a \<noteq> []" and "b \<noteq> []"
  shows "validateToken memConfig H now (JStr str) conf st =
    (case tokensList st (a @ js '':'' @ H b) of
       None \<Rightarrow> (Returns \<lparr>vr_success = False\<rparr>, st)
     | Some e \<Rightarrow>
         if e = 0 then (Returns \<lparr>vr_success = False\<rparr>, st)
         else if now < e
         then (if keeps conf then (Returns \<lparr>vr_success = True\<rparr>, st)
               else (Returns \<lparr>vr_success = True\<rparr>,
                     st\<lparr>tokensList := (tokensList st)(a @ js '':'' @ H b := None)\<rparr>))
         else (Returns \<lparr>vr_success = False\<rparr>, st))"
  by (simp add: validate_parts [OF assms] await_Returns [OF getToken_mem]
      await_Returns [OF deleteToken_mem] return_io_def split: option.split)

lemma getToken_down: "getToken (downConfig f) key st = (Throws f, st)"
  by (simp add: getToken_def downConfig_def downTokens_def)

lemma validate_down:
  assumes "split_on 58 str = [a, b]" and "a \<noteq> []" and "b \<noteq> []"
  shows "validateToken (downConfig f) H now (JStr str) conf st = (Throws f, st)"
  by (simp add: validate_parts [OF assms] await_Throws [OF getToken_down])

lemma validate_malformed:
  assumes "\<not> (\<exists>a b. token = JStr (a @ 58 # b) \<and> a \<noteq> [] \<and> b \<noteq> [] \<and> 58 \<notin> set a \<and> 58 \<notin> set b)"
  shows "validateToken cfg H now token conf st = (Returns \<lparr>vr_success = False\<rparr>, st)"
proof (cases token)
  case (JStr str)
  have "\<forall>a b. split_on 58 str = [a, b] \<longrightarrow> a = [] \<or> b = []"
    using assms JStr by (auto simp add: split_on_pair_iff)
  then show ?thesis
    unfolding JStr by (rule validate_no_parts)
qed (simp_all add: validate_not_string)

lemma wellformed_parts:
  "a \<noteq> [] \<Longrightarrow> b \<noteq> [] \<Longrightarrow> 58 \<notin> set a \<Longrightarrow> 58 \<notin> set b \<Longrightarrow> split_on 58 (a @ 58 # b) = [a, b]"
  by (simp add: split_on_pair_iff)

subsection \<open>The example's verification token\<close>

lemma verToken0_parts:
  "verToken0 = js ''0000000000000000'' @ 58 # js ''000000000000000000000000000000''"
  by (simp add: verToken0_def js_def)

lemma verToken0_key:
  "js ''0000000000000000'' @ js '':'' @ sha256Known (js ''000000000000000000000000000000'') = tokenKey0"
  by (simp add: sha256Known_def tokenKey0_def) (simp add: js_def)

lemma verToken0_wellformed:
  "verToken0 = js ''0000000000000000'' @ 58 # js ''000000000000000000000000000000''
   \<and> js ''0000000000000000'' \<noteq> [] \<and> js ''000000000000000000000000000000'' \<noteq> []
   \<and> 58 \<notin> set (js ''0000000000000000'') \<and> 58 \<notin> set (js ''000000000000000000000000000000'')"
  by (simp add: verToken0_def js_def)

lemma state1_tokens: "tokensList state1 = [tokenKey0 \<mapsto> 1202000]"
  by (simp add: state1_def tokenKey0_def)

lemma split_abc: "split_on 58 (js ''a:b:c'') = [js ''a'', js ''b'', js ''c'']"
  by (simp add: js_def)

lemma example_validate_at:
  "validateToken memConfig sha256Known now (JStr verToken0) conf state1
     = (if now < 1202000
        then (if keeps conf then (Returns \<lparr>vr_success = True\<rparr>, state1)
              else (Returns \<lparr>vr_success = True\<rparr>, emptyState))
        else (Returns \<lparr>vr_success = False\<rparr>, state1))"
proof -
  have parts: "split_on 58 (js ''0000000000000000'' @ 58 # js ''000000000000000000000000000000'')
      = [js ''0000000000000000'', js ''000000000000000000000000000000'']"
    by (rule wellformed_parts) (simp_all add: js_def)
  have a: "js ''0000000000000000'' \<noteq> []" and b: "js ''000000000000000000000000000000'' \<noteq> []"
    by (simp_all add: js_def)
  have key: "tokensList state1 (js ''0000000000000000'' @ js '':''
      @ sha256Known (js ''000000000000000000000000000000'')) = Some 1202000"
    by (simp add: verToken0_key state1_tokens)
  have del: "state1\<lparr>tokensList := (tokensList state1)(js ''0000000000000000'' @ js '':''
      @ sha256Known (js ''000000000000000000000000000000'') := None)\<rparr> = emptyState"
    by (simp add: verToken0_key state1_def emptyState_def tokenKey0_def)
  show ?thesis
    unfolding verToken0_parts
    by (simp add: validate_mem [OF parts a b] key del)
qed

lemma example_validate:
  "validateToken memConfig sha256Known 3000 (JStr verToken0) None state1
     = (Returns \<lparr>vr_success = True\<rparr>, emptyState)"
  by (simp add: example_validate_at keeps_def)

lemma keeps_keeping: "keeps keeping"
  by (simp add: keeps_def keeping_def)

lemma keeps_None: "\<not> keeps None"
  by (simp add: keeps_def)

lemma state1_expiry: "tokensList state1 key = Some e \<Longrightarrow> e = 1202000"
  by (simp add: state1_tokens split: if_splits)

subsection \<open>Hooks that throw\<close>



lemma storeChallenge_down:
  "(case challenges (storage (downConfig f)) of Some hooks \<Rightarrow> cs_store hooks token data
      | None \<Rightarrow> return_io ()) st = (Throws f, st)"
  by (simp add: downConfig_def downChallenges_def)

section \<open>Properties of validation\<close>

text \<open>
  Claim C4, as amended. \<open>validateToken\<close> splits the token at every colon. When the token
  is not a string of the form \<open>id:secret\<close> with exactly one colon and both parts
  non-empty, the call returns failure and leaves the state alone whatever the storage
  hooks are, so no hook is called. For every token of that form the key
  \<open>id:sha256Hex secret\<close> is looked up: on a backend that is down the call throws the
  backend's fault, and on the in-memory backend the call succeeds exactly when the
  store holds a non-zero expiry in the future under that key.
\<close>

theorem validateToken_malformed:
  "(\<not> (\<exists>a b. token = JStr (a @ 58 # b) \<and> a \<noteq> [] \<and> b \<noteq> [] \<and> 58 \<notin> set a \<and> 58 \<notin> set b)
      \<longrightarrow> validateToken cfg sha256Hex now token conf st = (Returns \<lparr>vr_success = False\<rparr>, st))
   \<and> (\<forall>a b. token = JStr (a @ 58 # b) \<and> a \<noteq> [] \<and> b \<noteq> [] \<and> 58 \<notin> set a \<and> 58 \<notin> set b
      \<longrightarrow> validateToken (downConfig f) sha256Hex now token conf dst = (Throws f, dst)
        \<and> (\<exists>mst'. validateToken memConfig sha256Hex now token conf mst
              = (Returns \<lparr>vr_success =
                    (\<exists>e. tokensList mst (a @ js '':'' @ sha256Hex b) = Some e \<and> e \<noteq> 0 \<and> now < e)\<rparr>,
                 mst')))"
proof (intro conjI impI allI)
  assume "\<not> (\<exists>a b. token = JStr (a @ 58 # b) \<and> a \<noteq> [] \<and> b \<noteq> [] \<and> 58 \<notin> set a \<and> 58 \<notin> set b)"
  then show "validateToken cfg sha256Hex now token conf st = (Returns \<lparr>vr_success = False\<rparr>, st)"
    by (rule validate_malformed)
next
  fix a b
  assume ab: "token = JStr (a @ 58 # b) \<and> a \<noteq> [] \<and> b \<noteq> [] \<and> 58 \<notin> set a \<and> 58 \<notin> set b"
  then have parts: "split_on 58 (a @ 58 # b) = [a, b]" and a: "a \<noteq> []" and b: "b \<noteq> []"
    by (simp_all add: split_on_pair_iff)
  from ab show "validateToken (downConfig f) sha256Hex now token conf dst = (Throws f, dst)"
    by (simp add: validate_down [OF parts a b])
  from ab show "\<exists>mst'. validateToken memConfig sha256Hex now token conf mst
              = (Returns \<lparr>vr_success =
                    (\<exists>e. tokensList mst (a @ js '':'' @ sha256Hex b) = Some e \<and> e \<noteq> 0 \<and> now < e)\<rparr>,
                 mst')"
    by (auto simp add: validate_mem [OF parts a b] split: option.split)
qed

text \<open>
  A string without a colon and a number fail on the backend that is down; the issued
  token reaches the store (it throws there, and succeeds on the example's store).
\<close>

theorem validateToken_malformed_witness:
  "validateToken (downConfig (Fault ''storage unavailable'')) sha256Known 3000 (JStr (js ''abc'')) None ()
     = (Returns \<lparr>vr_success = False\<rparr>, ())
   \<and> validateToken (downConfig (Fault ''storage unavailable'')) sha256Known 3000 (JNum (js ''7'')) None ()
     = (Returns \<lparr>vr_success = False\<rparr>, ())
   \<and> validateToken (downConfig (Fault ''storage unavailable'')) sha256Known 3000 (JStr verToken0) None ()
     = (Throws (Fault ''storage unavailable''), ())
   \<and> (\<exists>mst'. validateToken memConfig sha256Known 3000 (JStr verToken0) None state1
          = (Returns \<lparr>vr_success = True\<rparr>, mst'))"
proof -
  have abc: "\<not> (\<exists>a b. JStr (js ''abc'') = JStr (a @ 58 # b) \<and> a \<noteq> [] \<and> b \<noteq> [] \<and> 58 \<notin> set a \<and> 58 \<notin> set b)"
  proof
    assume "\<exists>a b. JStr (js ''abc'') = JStr (a @ 58 # b) \<and> a \<noteq> [] \<and> b \<noteq> [] \<and> 58 \<notin> set a \<and> 58 \<notin> set b"
    then obtain a b where "js ''abc'' = a @ 58 # b"
      by auto
    then have "58 \<in> set (js ''abc'')"
      by simp
    then show False
      by (simp add: js_def)
  qed
  have seven: "\<not> (\<exists>a b. JNum (js ''7'') = JStr (a @ 58 # b) \<and> a \<noteq> [] \<and> b \<noteq> [] \<and> 58 \<notin> set a \<and> 58 \<notin> set b)"
    by simp
  note t1 = validateToken_malformed [of "JStr (js ''abc'')" "downConfig (Fault ''storage unavailable'')"
      sha256Known 3000 None "()" "Fault ''storage unavailable''" "()" state1]
  note t2 = validateToken_malformed [of "JNum (js ''7'')" "downConfig (Fault ''storage unavailable'')"
      sha256Known 3000 None "()" "Fault ''storage unavailable''" "()" state1]
  note t3 = validateToken_malformed [of "JStr verToken0" "downConfig (Fault ''storage unavailable'')"
      sha256Known 3000 None "()" "Fault ''storage unavailable''" "()" state1]
  from t1 abc have r1: "validateToken (downConfig (Fault ''storage unavailable'')) sha256Known 3000
      (JStr (js ''abc'')) None () = (Returns \<lparr>vr_success = False\<rparr>, ())"
    by blast
  from t2 seven have r2: "validateToken (downConfig (Fault ''storage unavailable'')) sha256Known 3000
      (JNum (js ''7'')) None () = (Returns \<lparr>vr_success = False\<rparr>, ())"
    by blast
  from t3 verToken0_wellformed
  have r3: "validateToken (downConfig (Fault ''storage unavailable'')) sha256Known 3000 (JStr verToken0) None ()
        = (Throws (Fault ''storage unavailable''), ())"
    and r4: "\<exists>mst'. validateToken memConfig sha256Known 3000 (JStr verToken0) None state1
        = (Returns \<lparr>vr_success =
            (\<exists>e. tokensList state1 (js ''0000000000000000'' @ js '':''
                   @ sha256Known (js ''000000000000000000000000000000'')) = Some e \<and> e \<noteq> 0 \<and> 3000 < e)\<rparr>, mst')"
    by blast+
  have "\<exists>e. tokensList state1 (js ''0000000000000000'' @ js '':''
                   @ sha256Known (js ''000000000000000000000000000000'')) = Some e \<and> e \<noteq> 0 \<and> 3000 < e"
    by (simp add: verToken0_key state1_tokens)
  with r4 have "\<exists>mst'. validateToken memConfig sha256Known 3000 (JStr verToken0) None state1
          = (Returns \<lparr>vr_success = True\<rparr>, mst')"
    by simp
  with r1 r2 r3 show ?thesis
    by simp
qed

text \<open>
  Claim C4 as stated fails at \<^verbatim>\<open>a:b:c\<close>: read at the first colon the parts are \<^verbatim>\<open>a\<close> and
  \<^verbatim>\<open>b:c\<close>, both non-empty, so the key \<open>a:sha256Hex "b:c"\<close> should be looked up. The code
  finds three pieces and fails without reaching the store, also when the store holds
  an unexpired record under that key.
\<close>

theorem validateToken_two_colons_counterexample:
  "validateToken (downConfig (Fault ''storage unavailable'')) sha256Known 3000 (JStr (js ''a:b:c'')) None ()
     = (Returns \<lparr>vr_success = False\<rparr>, ())
   \<and> tokensList stateABC (js ''a'' @ js '':'' @ sha256Known (js ''b:c'')) = Some 9999999
   \<and> validateToken memConfig sha256Known 3000 (JStr (js ''a:b:c'')) None stateABC
     = (Returns \<lparr>vr_success = False\<rparr>, stateABC)"
proof -
  have none: "\<forall>a b. split_on 58 (js ''a:b:c'') = [a, b] \<longrightarrow> a = [] \<or> b = []"
    by (simp add: split_abc)
  have "tokensList stateABC (js ''a'' @ js '':'' @ sha256Known (js ''b:c'')) = Some 9999999"
    by (simp add: stateABC_def sha256Known_def) (simp add: js_def)
  then show ?thesis
    by (simp add: validate_no_parts [OF none])
qed

text \<open>
  Claim C7. After a successful \<open>validateToken\<close> without \<^verbatim>\<open>keepToken\<close>, every later call
  with the same token fails. With \<^verbatim>\<open>keepToken\<close> the successful call leaves the store as it
  was, the record is still there, and every later call before the record's expiry
  succeeds.
\<close>

theorem validateToken_single_use:
  assumes first: "validateToken memConfig sha256Hex now1 token conf1 st = (Returns \<lparr>vr_success = True\<rparr>, st1)"
  shows "(\<not> keeps conf1 \<longrightarrow>
            (\<forall>now2 conf2. validateToken memConfig sha256Hex now2 token conf2 st1
                = (Returns \<lparr>vr_success = False\<rparr>, st1)))
       \<and> (keeps conf1 \<longrightarrow> st1 = st \<and>
            (\<exists>key e. tokensList st1 key = Some e \<and> now1 < e \<and>
               (\<forall>now2 conf2. now2 < e \<longrightarrow>
                  (\<exists>st2. validateToken memConfig sha256Hex now2 token conf2 st1
                      = (Returns \<lparr>vr_success = True\<rparr>, st2)))))"
proof (cases "\<exists>a b. token = JStr (a @ 58 # b) \<and> a \<noteq> [] \<and> b \<noteq> [] \<and> 58 \<notin> set a \<and> 58 \<notin> set b")
  case False
  from validate_malformed [OF False, of memConfig sha256Hex now1 conf1 st] first
  show ?thesis by simp
next
  case True
  then obtain a b where token: "token = JStr (a @ 58 # b)"
    and a: "a \<noteq> []" and b: "b \<noteq> []" and na: "58 \<notin> set a" and nb: "58 \<notin> set b"
    by blast
  have parts: "split_on 58 (a @ 58 # b) = [a, b]"
    using a b na nb by (rule wellformed_parts)
  let ?key = "a @ js '':'' @ sha256Hex b"
  note run = validate_mem [OF parts a b, of sha256Hex]
  from first obtain e where e: "tokensList st ?key = Some e" "e \<noteq> 0" "now1 < e"
    and st1: "st1 = (if keeps conf1 then st else st\<lparr>tokensList := (tokensList st)(?key := None)\<rparr>)"
    unfolding token by (auto simp add: run split: option.splits if_splits)
  show ?thesis
  proof (intro conjI impI allI)
    fix now2 conf2
    assume "\<not> keeps conf1"
    with st1 have "tokensList st1 ?key = None"
      by simp
    then show "validateToken memConfig sha256Hex now2 token conf2 st1 = (Returns \<lparr>vr_success = False\<rparr>, st1)"
      unfolding token by (simp add: run)
  next
    assume "keeps conf1"
    with st1 show "st1 = st"
      by simp
  next
    assume "keeps conf1"
    with st1 have same: "st1 = st"
      by simp
    have "\<exists>st2. validateToken memConfig sha256Hex now2 token conf2 st1 = (Returns \<lparr>vr_success = True\<rparr>, st2)"
      if "now2 < e" for now2 conf2
      unfolding token same using that e by (simp add: run)
    with e same show "\<exists>key e. tokensList st1 key = Some e \<and> now1 < e \<and>
               (\<forall>now2 conf2. now2 < e \<longrightarrow>
                  (\<exists>st2. validateToken memConfig sha256Hex now2 token conf2 st1
                      = (Returns \<lparr>vr_success = True\<rparr>, st2)))"
      by blast
  qed
qed

text \<open>At the example's token: consumed by default, still valid when kept.\<close>

theorem validateToken_single_use_witness:
  "validateToken memConfig sha256Known 3000 (JStr verToken0) None state1
     = (Returns \<lparr>vr_success = True\<rparr>, emptyState)
   \<and> \<not> keeps None
   \<and> validateToken memConfig sha256Known 4000 (JStr verToken0) None emptyState
     = (Returns \<lparr>vr_success = False\<rparr>, emptyState)
   \<and> keeps keeping
   \<and> (\<exists>st1. validateToken memConfig sha256Known 3000 (JStr verToken0) keeping state1
          = (Returns \<lparr>vr_success = True\<rparr>, st1)
        \<and> st1 = state1
        \<and> (\<exists>st2. validateToken memConfig sha256Known 4000 (JStr verToken0) None st1
             = (Returns \<lparr>vr_success = True\<rparr>, st2)))"
proof -
  note first = example_validate
  from validateToken_single_use [OF first] keeps_None
  have second: "validateToken memConfig sha256Known 4000 (JStr verToken0) None emptyState
     = (Returns \<lparr>vr_success = False\<rparr>, emptyState)"
    by blast
  define st1 where "st1 = state1"
  have kept: "validateToken memConfig sha256Known 3000 (JStr verToken0) keeping state1
        = (Returns \<lparr>vr_success = True\<rparr>, st1)"
    by (simp add: example_validate_at keeps_keeping st1_def)
  from validateToken_single_use [OF kept] keeps_keeping
  obtain key e where same: "st1 = state1" and e: "tokensList st1 key = Some e"
    and later: "\<forall>now2 conf2. now2 < e \<longrightarrow>
                  (\<exists>st2. validateToken memConfig sha256Known now2 (JStr verToken0) conf2 st1
                      = (Returns \<lparr>vr_success = True\<rparr>, st2))"
    by blast
  from e same have "e = 1202000"
    by (simp add: state1_expiry)
  with later have "\<exists>st2. validateToken memConfig sha256Known 4000 (JStr verToken0) None st1
             = (Returns \<lparr>vr_success = True\<rparr>, st2)"
    by simp
  with first second kept same keeps_None keeps_keeping show ?thesis
    by blast
qed

text \<open>
  Claim C10. \<open>validateToken\<close> always returns on the in-memory backend. When it returns
  failure the state is unchanged; the state changes only on success without
  \<^verbatim>\<open>keepToken\<close>; a record whose expiry is not in the future is still in the token store
  after the call, whatever the outcome; the challenge store is never touched.
\<close>

theorem validateToken_failure_frame:
  "\<exists>res st'. validateToken memConfig sha256Hex now token conf st = (Returns res, st')
     \<and> (\<not> vr_success res \<longrightarrow> st' = st)
     \<and> (st' \<noteq> st \<longrightarrow> vr_success res \<and> \<not> keeps conf)
     \<and> (\<forall>key e. tokensList st key = Some e \<and> e \<le> now \<longrightarrow> tokensList st' key = Some e)
     \<and> challengesList st' = challengesList st"
proof (cases "\<exists>a b. token = JStr (a @ 58 # b) \<and> a \<noteq> [] \<and> b \<noteq> [] \<and> 58 \<notin> set a \<and> 58 \<notin> set b")
  case False
  from validate_malformed [OF False, of memConfig sha256Hex now conf st]
  show ?thesis by simp
next
  case True
  then obtain a b where token: "token = JStr (a @ 58 # b)"
    and a: "a \<noteq> []" and b: "b \<noteq> []" and na: "58 \<notin> set a" and nb: "58 \<notin> set b"
    by blast
  have parts: "split_on 58 (a @ 58 # b) = [a, b]"
    using a b na nb by (rule wellformed_parts)
  show ?thesis
    unfolding token
    by (auto simp add: validate_mem [OF parts a b] split: option.split)
qed

text \<open>At the example's token, validated after its expiry.\<close>

theorem validateToken_failure_frame_witness:
  "tokensList state1 tokenKey0 = Some 1202000
   \<and> (1202000 :: int) \<le> 2000000
   \<and> (\<exists>res st'. validateToken memConfig sha256Known 2000000 (JStr verToken0) None state1
          = (Returns res, st')
        \<and> \<not> vr_success res \<and> st' = state1 \<and> tokensList st' tokenKey0 = Some 1202000)"
proof -
  have stored: "tokensList state1 tokenKey0 = Some 1202000"
    by (simp add: state1_tokens)
  from validateToken_failure_frame [of sha256Known 2000000 "JStr verToken0" None state1]
  obtain res st' where run: "validateToken memConfig sha256Known 2000000 (JStr verToken0) None state1
          = (Returns res, st')"
    and frame: "\<not> vr_success res \<longrightarrow> st' = state1"
    and expired: "\<forall>key e. tokensList state1 key = Some e \<and> e \<le> 2000000 \<longrightarrow> tokensList st' key = Some e"
    by blast
  have "validateToken memConfig sha256Known 2000000 (JStr verToken0) None state1
        = (Returns \<lparr>vr_success = False\<rparr>, state1)"
    by (simp add: example_validate_at)
  with run have failed: "\<not> vr_success res"
    by auto
  with frame have "st' = state1"
    by blast
  moreover from expired stored have "tokensList st' tokenKey0 = Some 1202000"
    by simp
  ultimately show ?thesis
    using run failed stored by simp
qed

section \<open>Storage failures\<close>




end
